theory Spec2Isabelle
  imports Main "HOL-Library.Word" "HOL-Library.Char_ord" "HOL-Library.List_Lexorder"
begin

unbundle bit_operations_syntax

section \<open>Python values used by the App Factory modules\<close>

text \<open>
  A Python \<open>str\<close> is modelled as a \<open>string\<close> whose characters stand for the code points
  0..255 of the same number; \<open>len\<close> is \<open>length\<close>. Python's \<open>int\<close> is \<open>int\<close>.
\<close>

definition py_lower_char :: "char \<Rightarrow> char" where
  \<comment> \<open>\<open>str.lower()\<close> on one code point below 256: A-Z and the Latin-1 capitals.\<close>
  "py_lower_char c =
     (let n = (of_char c :: nat)
      in if (65 \<le> n \<and> n \<le> 90) \<or> (192 \<le> n \<and> n \<le> 222 \<and> n \<noteq> 215)
         then char_of (n + 32) else c)"

definition py_lower :: "string \<Rightarrow> string" where
  "py_lower s = map py_lower_char s"

definition py_isspace :: "char \<Rightarrow> bool" where
  \<comment> \<open>the class \<open>\s\<close> of \<open>re\<close> on a \<open>str\<close> pattern, for code points below 256\<close>
  "py_isspace c =
     (let n = (of_char c :: nat)
      in (9 \<le> n \<and> n \<le> 13) \<or> (28 \<le> n \<and> n \<le> 32) \<or> n = 133 \<or> n = 160)"

function re_sub_runs :: "(char \<Rightarrow> bool) \<Rightarrow> string \<Rightarrow> string" where
  \<comment> \<open>\<open>re.sub(r'[class]+', '.', s)\<close>: every maximal run of the class becomes one dot\<close>
  "re_sub_runs P [] = []"
| "re_sub_runs P (c # cs) =
     (if P c then CHR ''.'' # re_sub_runs P (dropWhile P cs) else c # re_sub_runs P cs)"
  by pat_completeness auto
termination
  by (relation "measure (\<lambda>(P, s). length s)")
     (auto simp: length_dropWhile_le less_Suc_eq_le)

definition py_strip_chars :: "(char \<Rightarrow> bool) \<Rightarrow> string \<Rightarrow> string" where
  \<comment> \<open>\<open>s.strip(chars)\<close>: drop the characters of the set at both ends\<close>
  "py_strip_chars P s = rev (dropWhile P (rev (dropWhile P s)))"

definition py_slice_to :: "'a list \<Rightarrow> int \<Rightarrow> 'a list" where
  \<comment> \<open>\<open>xs[:k]\<close>: a negative \<open>k\<close> counts from the end, clamped at 0\<close>
  "py_slice_to xs k =
     (if 0 \<le> k then take (nat k) xs else take (length xs - nat (- k)) xs)"

section \<open>build_validator.py: generate_bundle_identifier\<close>

definition is_separator :: "char \<Rightarrow> bool" where
  \<comment> \<open>the class \<open>[_\-\s]\<close>\<close>
  "is_separator c = (c = CHR ''_'' \<or> c = CHR ''-'' \<or> py_isspace c)"

definition is_slug_char :: "char \<Rightarrow> bool" where
  \<comment> \<open>the class \<open>[a-z0-9.]\<close>\<close>
  "is_slug_char c =
     (let n = (of_char c :: nat)
      in (97 \<le> n \<and> n \<le> 122) \<or> (48 \<le> n \<and> n \<le> 57) \<or> c = CHR ''.'')"

definition is_dot :: "char \<Rightarrow> bool" where
  "is_dot c = (c = CHR ''.'')"

definition normalize_slug :: "string \<Rightarrow> string" where
  \<comment> \<open>lines 234-243: the five rewriting steps on \<open>clean_slug\<close>\<close>
  "normalize_slug slug =
     (let clean_slug = py_lower slug;
          clean_slug = re_sub_runs is_separator clean_slug;
          clean_slug = filter is_slug_char clean_slug;
          clean_slug = re_sub_runs is_dot clean_slug;
          clean_slug = py_strip_chars is_dot clean_slug
      in clean_slug)"

definition bundle_base :: string where
  "bundle_base = ''com.appfactory''"

definition generate_bundle_identifier :: "string \<Rightarrow> int \<Rightarrow> string" where
  "generate_bundle_identifier slug max_length =
     (let clean_slug = normalize_slug slug;
          base = bundle_base;
          bundle_id = (if clean_slug \<noteq> [] then base @ ''.'' @ clean_slug
                       else base @ ''.'' @ ''app'')
      in if int (length bundle_id) > max_length
         then (let available_length = max_length - int (length base) - 1;
                   truncated_slug = py_slice_to clean_slug available_length
               in base @ ''.'' @ truncated_slug)
         else bundle_id)"

section \<open>Python exceptions and JSON values\<close>

text \<open>
  Every exception class the two modules can meet derives from \<open>Exception\<close>. The text
  carried by an exception is what \<open>str(e)\<close> shows; for errors of the operating system and
  of the JSON parser it is supplied by the environment.
\<close>

datatype py_exn =
    KeyError string
  | TypeError string
  | AttributeError string string
  | OSError string
  | JSONDecodeError string
  | ValueError string
  | TimeoutExpired
  | OtherException string

definition quoted :: "string \<Rightarrow> string" where
  \<comment> \<open>the text between two apostrophes\<close>
  "quoted s = [CHR 0x27] @ s @ [CHR 0x27]"

fun exn_str :: "py_exn \<Rightarrow> string" where
  "exn_str (KeyError k) = quoted k"
| "exn_str (TypeError m) = m"
| "exn_str (AttributeError ty a) = quoted ty @ '' object has no attribute '' @ quoted a"
| "exn_str (OSError m) = m"
| "exn_str (JSONDecodeError m) = m"
| "exn_str (ValueError m) = m"
| "exn_str TimeoutExpired = ''timed out''"
| "exn_str (OtherException m) = m"

text \<open>
  The values a document is made of: \<open>None\<close>, \<open>bool\<close>, \<open>int\<close>, \<open>str\<close>, \<open>list\<close>, \<open>tuple\<close> and
  \<open>dict\<close> with \<open>str\<close> keys, a dict kept in insertion order. \<open>json.load\<close> returns all of
  them but the tuple, which \<open>json.dump\<close> accepts and writes as an array. Floating-point
  numbers are left out.
\<close>

datatype json =
    JNull
  | JBool bool
  | JNum int
  | JStr string
  | JArr "json list"
  | JTuple "json list"
  | JObj "(string \<times> json) list"

fun type_name :: "json \<Rightarrow> string" where
  "type_name JNull = ''NoneType''"
| "type_name (JBool _) = ''bool''"
| "type_name (JNum _) = ''int''"
| "type_name (JStr _) = ''str''"
| "type_name (JArr _) = ''list''"
| "type_name (JTuple _) = ''tuple''"
| "type_name (JObj _) = ''dict''"

fun py_truthy :: "json \<Rightarrow> bool" where
  "py_truthy JNull = False"
| "py_truthy (JBool b) = b"
| "py_truthy (JNum n) = (n \<noteq> 0)"
| "py_truthy (JStr s) = (s \<noteq> [])"
| "py_truthy (JArr xs) = (xs \<noteq> [])"
| "py_truthy (JTuple xs) = (xs \<noteq> [])"
| "py_truthy (JObj kvs) = (kvs \<noteq> [])"

fun of_optional :: "string option \<Rightarrow> json" where
  "of_optional None = JNull"
| "of_optional (Some s) = JStr s"

fun py_str_contains :: "string \<Rightarrow> string \<Rightarrow> bool" where
  \<comment> \<open>\<open>needle in hay\<close> on two strings\<close>
  "py_str_contains needle [] = (needle = [])"
| "py_str_contains needle (c # cs) =
     (take (length needle) (c # cs) = needle \<or> py_str_contains needle cs)"

definition py_startswith :: "string \<Rightarrow> string \<Rightarrow> bool" where
  "py_startswith s p = (take (length p) s = p)"

fun dict_get :: "json \<Rightarrow> string \<Rightarrow> json \<Rightarrow> py_exn + json" where
  \<comment> \<open>\<open>d.get(k, default)\<close>\<close>
  "dict_get (JObj kvs) k dflt = (case map_of kvs k of Some v \<Rightarrow> Inr v | None \<Rightarrow> Inr dflt)"
| "dict_get v k dflt = Inl (AttributeError (type_name v) ''get'')"

fun py_getitem :: "json \<Rightarrow> string \<Rightarrow> py_exn + json" where
  \<comment> \<open>\<open>d[k]\<close> with a \<open>str\<close> key\<close>
  "py_getitem (JObj kvs) k = (case map_of kvs k of Some v \<Rightarrow> Inr v | None \<Rightarrow> Inl (KeyError k))"
| "py_getitem (JArr xs) k = Inl (TypeError ''list indices must be integers or slices, not str'')"
| "py_getitem (JTuple xs) k = Inl (TypeError ''tuple indices must be integers or slices, not str'')"
| "py_getitem (JStr s) k = Inl (TypeError (''string indices must be integers, not '' @ quoted ''str''))"
| "py_getitem v k = Inl (TypeError (quoted (type_name v) @ '' object is not subscriptable''))"

fun py_contains :: "string \<Rightarrow> json \<Rightarrow> py_exn + bool" where
  \<comment> \<open>\<open>k in d\<close> with a \<open>str\<close> on the left\<close>
  "py_contains k (JObj kvs) = Inr (k \<in> set (map fst kvs))"
| "py_contains k (JArr xs) = Inr (JStr k \<in> set xs)"
| "py_contains k (JTuple xs) = Inr (JStr k \<in> set xs)"
| "py_contains k (JStr s) = Inr (py_str_contains k s)"
| "py_contains k v = Inl (TypeError (''argument of type '' @ quoted (type_name v) @ '' is not iterable''))"

fun py_iter :: "json \<Rightarrow> py_exn + json list" where
  \<comment> \<open>the items a \<open>for\<close> loop sees: a dict gives its keys, a string its characters\<close>
  "py_iter (JArr xs) = Inr xs"
| "py_iter (JTuple xs) = Inr xs"
| "py_iter (JObj kvs) = Inr (map (\<lambda>kv. JStr (fst kv)) kvs)"
| "py_iter (JStr s) = Inr (map (\<lambda>c. JStr [c]) s)"
| "py_iter v = Inl (TypeError (quoted (type_name v) @ '' object is not iterable''))"

definition dict_set :: "(string \<times> 'v) list \<Rightarrow> string \<Rightarrow> 'v \<Rightarrow> (string \<times> 'v) list" where
  \<comment> \<open>\<open>d[k] = v\<close> on a dict: an existing key keeps its place, a new one goes last\<close>
  "dict_set kvs k v =
     (if k \<in> set (map fst kvs) then map (\<lambda>kv. if fst kv = k then (k, v) else kv) kvs
      else kvs @ [(k, v)])"

fun py_setitem :: "json \<Rightarrow> string \<Rightarrow> json \<Rightarrow> py_exn + json" where
  \<comment> \<open>\<open>d[k] = v\<close> with a \<open>str\<close> key\<close>
  "py_setitem (JObj kvs) k v = Inr (JObj (dict_set kvs k v))"
| "py_setitem (JArr xs) k v = Inl (TypeError ''list indices must be integers or slices, not str'')"
| "py_setitem d k v = Inl (TypeError (quoted (type_name d) @ '' object does not support item assignment''))"

fun py_eq :: "json \<Rightarrow> json \<Rightarrow> bool" where
  \<comment> \<open>Python's \<open>==\<close>: dicts compare without regard to order, \<open>bool\<close> is an \<open>int\<close>\<close>
  "py_eq (JObj xs) (JObj ys) =
     (length xs = length ys \<and>
      (\<forall>kv \<in> set xs. case map_of ys (fst kv) of None \<Rightarrow> False | Some v' \<Rightarrow> py_eq (snd kv) v'))"
| "py_eq (JArr xs) (JArr ys) = list_all2 py_eq xs ys"
| "py_eq (JTuple xs) (JTuple ys) = list_all2 py_eq xs ys"
| "py_eq (JBool b) (JNum n) = (n = (if b then 1 else 0))"
| "py_eq (JNum n) (JBool b) = (n = (if b then 1 else 0))"
| "py_eq a b = (a = b)"

fun digit_char :: "nat \<Rightarrow> char" where
  "digit_char n = char_of (48 + n mod 10)"

fun str_nat :: "nat \<Rightarrow> string" where
  "str_nat n = (if n < 10 then [digit_char n] else str_nat (n div 10) @ [digit_char n])"

declare str_nat.simps [simp del]

definition str_int :: "int \<Rightarrow> string" where
  \<comment> \<open>\<open>str(n)\<close> of an \<open>int\<close>\<close>
  "str_int i = (if i < 0 then ''-'' @ str_nat (nat (- i)) else str_nat (nat i))"

fun sort_keys :: "json \<Rightarrow> json" where
  \<comment> \<open>the document \<open>json.dump(..., sort_keys=True)\<close> writes, as \<open>json.load\<close> reads it back:
      every dict by ascending key, every tuple an array\<close>
  "sort_keys (JObj kvs) = JObj (sort_key fst (map (\<lambda>kv. (fst kv, sort_keys (snd kv))) kvs))"
| "sort_keys (JArr xs) = JArr (map sort_keys xs)"
| "sort_keys (JTuple xs) = JArr (map sort_keys xs)"
| "sort_keys v = v"



section \<open>The limit on the decimal digits of an integer\<close>

text \<open>
  The interpreter refuses to convert between \<open>str\<close> and an \<open>int\<close> of more than 4300
  decimal digits, the sign not counted: \<open>json.dump\<close> and \<open>json.load\<close> then raise a
  \<open>ValueError\<close>, which is neither a \<open>JSONDecodeError\<close> nor an \<open>OSError\<close>.
\<close>

definition int_max_str_digits :: nat where
  "int_max_str_digits = 4300"

function int_digits :: "int \<Rightarrow> nat" where
  \<comment> \<open>the number of decimal digits of an integer\<close>
  "int_digits n = (if \<bar>n\<bar> < 10 then 1 else Suc (int_digits (\<bar>n\<bar> div 10)))"
  by auto
termination
  by (relation "measure (\<lambda>n. nat \<bar>n\<bar>)") auto

declare int_digits.simps [simp del]

fun big_ints :: "json \<Rightarrow> int list" where
  \<comment> \<open>the integers of a document that are over the limit, in the order of the document\<close>
  "big_ints (JNum n) = (if int_max_str_digits < int_digits n then [n] else [])"
| "big_ints (JArr xs) = concat (map big_ints xs)"
| "big_ints (JTuple xs) = concat (map big_ints xs)"
| "big_ints (JObj kvs) = concat (map (\<lambda>kv. big_ints (snd kv)) kvs)"
| "big_ints v = []"

definition json_dump_refusal :: "json \<Rightarrow> py_exn option" where
  \<comment> \<open>what \<open>json.dump\<close> raises while it encodes the document\<close>
  "json_dump_refusal doc =
     (if big_ints doc = [] then None
      else Some (ValueError (''Exceeds the limit ('' @ str_nat int_max_str_digits
                   @ '' digits) for integer string conversion; ''
                   @ ''use sys.set_int_max_str_digits() to increase the limit'')))"

definition json_decode :: "json \<Rightarrow> py_exn + json" where
  \<comment> \<open>\<open>json.load\<close> on a text that denotes the document\<close>
  "json_decode doc =
     (case big_ints doc of
        [] \<Rightarrow> Inr doc
      | n # others \<Rightarrow>
          Inl (ValueError (''Exceeds the limit ('' @ str_nat int_max_str_digits
                 @ '' digits) for integer string conversion: value has ''
                 @ str_nat (int_digits n) @ '' digits; ''
                 @ ''use sys.set_int_max_str_digits() to increase the limit'')))"

section \<open>hashlib.sha256 and str.encode\<close>

text \<open>
  \<open>generate_build_id\<close> calls \<open>hashlib.sha256(s.encode()).hexdigest()\<close>. The hash is the
  SHA-256 of FIPS 180-4 on 32-bit words (its constants are written in decimal); \<open>encode\<close> is UTF-8, which writes a code point
  from 128 to 255 as two bytes.
\<close>

type_synonym w32 = "32 word"
type_synonym byte = "8 word"

definition utf8_encode :: "string \<Rightarrow> byte list" where
  "utf8_encode s =
     concat (map (\<lambda>c. let n = (of_char c :: nat)
                      in if n < 128 then [of_nat n]
                         else [of_nat (192 + n div 64), of_nat (128 + n mod 64)]) s)"

definition sha256_k :: "w32 list" where
  "sha256_k =
     [1116352408, 1899447441, 3049323471, 3921009573,
      961987163, 1508970993, 2453635748, 2870763221,
      3624381080, 310598401, 607225278, 1426881987,
      1925078388, 2162078206, 2614888103, 3248222580,
      3835390401, 4022224774, 264347078, 604807628,
      770255983, 1249150122, 1555081692, 1996064986,
      2554220882, 2821834349, 2952996808, 3210313671,
      3336571891, 3584528711, 113926993, 338241895,
      666307205, 773529912, 1294757372, 1396182291,
      1695183700, 1986661051, 2177026350, 2456956037,
      2730485921, 2820302411, 3259730800, 3345764771,
      3516065817, 3600352804, 4094571909, 275423344,
      430227734, 506948616, 659060556, 883997877,
      958139571, 1322822218, 1537002063, 1747873779,
      1955562222, 2024104815, 2227730452, 2361852424,
      2428436474, 2756734187, 3204031479, 3329325298]"

type_synonym sha_state = "w32 \<times> w32 \<times> w32 \<times> w32 \<times> w32 \<times> w32 \<times> w32 \<times> w32"

definition sha256_init :: sha_state where
  "sha256_init =
     (1779033703, 3144134277, 1013904242, 2773480762,
      1359893119, 2600822924, 528734635, 1541459225)"

definition sha_ch :: "w32 \<Rightarrow> w32 \<Rightarrow> w32 \<Rightarrow> w32" where
  "sha_ch x y z = (x AND y) XOR (NOT x AND z)"

definition sha_maj :: "w32 \<Rightarrow> w32 \<Rightarrow> w32 \<Rightarrow> w32" where
  "sha_maj x y z = (x AND y) XOR (x AND z) XOR (y AND z)"

definition big_sigma0 :: "w32 \<Rightarrow> w32" where
  "big_sigma0 x = word_rotr 2 x XOR word_rotr 13 x XOR word_rotr 22 x"

definition big_sigma1 :: "w32 \<Rightarrow> w32" where
  "big_sigma1 x = word_rotr 6 x XOR word_rotr 11 x XOR word_rotr 25 x"

definition small_sigma0 :: "w32 \<Rightarrow> w32" where
  "small_sigma0 x = word_rotr 7 x XOR word_rotr 18 x XOR drop_bit 3 x"

definition small_sigma1 :: "w32 \<Rightarrow> w32" where
  "small_sigma1 x = word_rotr 17 x XOR word_rotr 19 x XOR drop_bit 10 x"

definition sha256_pad :: "byte list \<Rightarrow> byte list" where
  \<comment> \<open>the bit 1, zeros up to 56 modulo 64 bytes, the length in bits on 8 bytes\<close>
  "sha256_pad m =
     m @ [0x80] @ replicate ((119 - length m mod 64) mod 64) 0
       @ map (\<lambda>i. ucast (drop_bit (8 * (7 - i)) (of_nat (8 * length m) :: 64 word))) [0..<8]"

fun be_words :: "byte list \<Rightarrow> w32 list" where
  "be_words (a # b # c # d # rest) =
     (push_bit 24 (ucast a) OR push_bit 16 (ucast b) OR push_bit 8 (ucast c) OR ucast d)
       # be_words rest"
| "be_words _ = []"

definition sha_blocks :: "w32 list \<Rightarrow> w32 list list" where
  "sha_blocks ws = map (\<lambda>i. take 16 (drop (16 * i) ws)) [0..<length ws div 16]"

fun extend_schedule :: "nat \<Rightarrow> w32 list \<Rightarrow> w32 list" where
  "extend_schedule 0 ws = ws"
| "extend_schedule (Suc n) ws =
     (let l = length ws
      in extend_schedule n
           (ws @ [small_sigma1 (ws ! (l - 2)) + ws ! (l - 7)
                    + small_sigma0 (ws ! (l - 15)) + ws ! (l - 16)]))"

fun sha256_round :: "sha_state \<Rightarrow> w32 \<times> w32 \<Rightarrow> sha_state" where
  "sha256_round (a, b, c, d, e, f, g, h) (k, w) =
     (let t1 = h + big_sigma1 e + sha_ch e f g + k + w;
          t2 = big_sigma0 a + sha_maj a b c
      in (t1 + t2, a, b, c, d + t1, e, f, g))"

fun sha_add :: "sha_state \<Rightarrow> sha_state \<Rightarrow> sha_state" where
  "sha_add (a, b, c, d, e, f, g, h) (a', b', c', d', e', f', g', h') =
     (a + a', b + b', c + c', d + d', e + e', f + f', g + g', h + h')"

definition sha256_compress :: "sha_state \<Rightarrow> w32 list \<Rightarrow> sha_state" where
  "sha256_compress st block =
     sha_add st (foldl sha256_round st (zip sha256_k (extend_schedule 48 block)))"

definition sha256 :: "byte list \<Rightarrow> sha_state" where
  "sha256 m = foldl sha256_compress sha256_init (sha_blocks (be_words (sha256_pad m)))"

definition hex_digit :: "nat \<Rightarrow> char" where
  "hex_digit n = ''0123456789abcdef'' ! (n mod 16)"

definition hex32 :: "w32 \<Rightarrow> string" where
  "hex32 w = map (\<lambda>i. hex_digit (unat (drop_bit (4 * (7 - i)) w AND 0xF))) [0..<8]"

fun hexdigest :: "sha_state \<Rightarrow> string" where
  "hexdigest (a, b, c, d, e, f, g, h) =
     hex32 a @ hex32 b @ hex32 c @ hex32 d @ hex32 e @ hex32 f @ hex32 g @ hex32 h"

section \<open>build_registry.py: generate_build_id\<close>

definition generate_build_id :: "string \<Rightarrow> string option \<Rightarrow> string" where
  "generate_build_id build_path additional_data =
     (let hash_input = build_path;
          hash_input = (case additional_data of
                          None \<Rightarrow> hash_input
                        | Some extra \<Rightarrow> if extra \<noteq> [] then hash_input @ extra else hash_input)
      in py_slice_to (hexdigest (sha256 (utf8_encode hash_input))) 16)"

section \<open>build_registry.py: the registry file and its environment\<close>

text \<open>
  The module reads and writes one file, \<open>builds/build_index.json\<close>. The environment holds
  the readings of the clock and the lines printed so far, what the file contains (as the
  document \<open>json.load\<close> would return) and the faults the file system answers with.
\<close>

datatype file_state =
    Missing
  | Malformed
  | Parsed json

record py_world =
  clock :: "nat \<Rightarrow> string"
  ticks :: nat
  console :: "string list"

record reg_world = py_world +
  registry_path :: string
  registry_file :: file_state
  decode_message :: string
  mkdir_error :: "string option"
  open_write_error :: "string option"
  dump_error :: "string option"
  open_read_error :: "string option"

definition datetime_now :: "'a py_world_scheme \<Rightarrow> string \<times> 'a py_world_scheme" where
  \<comment> \<open>\<open>datetime.now().isoformat()\<close>: the next reading of the clock\<close>
  "datetime_now w = (clock w (ticks w), w\<lparr>ticks := Suc (ticks w)\<rparr>)"

definition print :: "string \<Rightarrow> 'a py_world_scheme \<Rightarrow> 'a py_world_scheme" where
  "print line w = w\<lparr>console := console w @ [line]\<rparr>"

definition empty_registry :: "string \<Rightarrow> json" where
  "empty_registry now = JObj [(''updatedAt'', JStr now), (''builds'', JArr [])]"

definition read_registry :: "reg_world \<Rightarrow> py_exn + json" where
  \<comment> \<open>lines 38-39: \<open>open(registry_path, 'r')\<close> and \<open>json.load(f)\<close> on a file that exists\<close>
  "read_registry w =
     (case open_read_error w of
        Some m \<Rightarrow> Inl (OSError m)
      | None \<Rightarrow>
          (case registry_file w of
             Parsed doc \<Rightarrow> json_decode doc
           | _ \<Rightarrow> Inl (JSONDecodeError (decode_message w))))"

fun caught_on_load :: "py_exn \<Rightarrow> bool" where
  \<comment> \<open>the classes of \<open>except (json.JSONDecodeError, IOError)\<close>\<close>
  "caught_on_load (JSONDecodeError m) = True"
| "caught_on_load (OSError m) = True"
| "caught_on_load e = False"

definition load_build_registry :: "reg_world \<Rightarrow> (py_exn + json) \<times> reg_world" where
  "load_build_registry w =
     (if registry_file w = Missing then
        \<comment> \<open>lines 24-35, outside any \<open>try\<close>\<close>
        (case mkdir_error w of
           Some m \<Rightarrow> (Inl (OSError m), w)
         | None \<Rightarrow>
             (let (now, w1) = datetime_now w;
                  registry = empty_registry now
              in case open_write_error w1 of
                   Some m \<Rightarrow> (Inl (OSError m), w1)
                 | None \<Rightarrow>
                     (case dump_error w1 of
                        Some m \<Rightarrow> (Inl (OSError m), w1\<lparr>registry_file := Malformed\<rparr>)
                      | None \<Rightarrow> (Inr registry, w1\<lparr>registry_file := Parsed registry\<rparr>))))
      else
        \<comment> \<open>lines 37-45: \<open>except (json.JSONDecodeError, IOError)\<close>, any other exception
            leaves the function\<close>
        (case read_registry w of
           Inr doc \<Rightarrow> (Inr doc, w)
         | Inl e \<Rightarrow>
             if caught_on_load e
             then (let w1 = print (''Warning: Could not load build registry: '' @ exn_str e) w;
                       (now, w2) = datetime_now w1
                   in (Inr (empty_registry now), w2))
             else (Inl e, w)))"

definition save_build_registry :: "reg_world \<Rightarrow> json \<Rightarrow> (py_exn + bool) \<times> json \<times> reg_world" where
  \<comment> \<open>returns the result, the caller's registry object as the call leaves it, and the world.
      Only an \<open>IOError\<close> is caught: what \<open>json.dump\<close> raises on the document itself leaves the
      function, and the file, opened for writing, is left with the text written so far.\<close>
  "save_build_registry w registry =
     (case mkdir_error w of
        Some m \<Rightarrow>
          (Inr False, registry, print (''Error: Could not save build registry: '' @ m) w)
      | None \<Rightarrow>
          (let (now, w1) = datetime_now w
           in case py_setitem registry ''updatedAt'' (JStr now) of
                Inl e \<Rightarrow> (Inl e, registry, w1)
              | Inr registry1 \<Rightarrow>
                  (case open_write_error w1 of
                     Some m \<Rightarrow>
                       (Inr False, registry1,
                        print (''Error: Could not save build registry: '' @ m) w1)
                   | None \<Rightarrow>
                       (case dump_error w1 of
                          Some m \<Rightarrow>
                            (Inr False, registry1,
                             print (''Error: Could not save build registry: '' @ m)
                               (w1\<lparr>registry_file := Malformed\<rparr>))
                        | None \<Rightarrow>
                            (case json_dump_refusal registry1 of
                               Some e \<Rightarrow> (Inl e, registry1, w1\<lparr>registry_file := Malformed\<rparr>)
                             | None \<Rightarrow>
                                 (Inr True, registry1,
                                  w1\<lparr>registry_file := Parsed (sort_keys registry1)\<rparr>))))))"

section \<open>build_registry.py: register_build\<close>

fun py_or :: "string option \<Rightarrow> string option \<Rightarrow> string option" where
  \<comment> \<open>\<open>a or b\<close> on two \<open>Optional[str]\<close>\<close>
  "py_or None b = b"
| "py_or (Some s) b = (if s \<noteq> [] then Some s else b)"

fun find_existing :: "json list \<Rightarrow> string \<Rightarrow> nat \<Rightarrow> py_exn + nat option" where
  \<comment> \<open>lines 115-119: the index of the first build with the id, the scan stops there\<close>
  "find_existing [] build_id i = Inr None"
| "find_existing (build # rest) build_id i =
     (case py_getitem build ''buildId'' of
        Inl e \<Rightarrow> Inl e
      | Inr v \<Rightarrow> if py_eq v (JStr build_id) then Inr (Some i)
                 else find_existing rest build_id (Suc i))"

definition build_entry ::
  "string \<Rightarrow> string \<Rightarrow> string \<Rightarrow> string \<Rightarrow> string \<Rightarrow> string \<Rightarrow> string option \<Rightarrow> string option \<Rightarrow>
   string option \<Rightarrow> string \<Rightarrow> string \<Rightarrow> string \<Rightarrow> string \<Rightarrow> json" where
  "build_entry build_id name slug mode build_path status run_id idea_slug dream_prompt_hash
               framework launch_command notes created_at =
     JObj [(''buildId'', JStr build_id),
           (''name'', JStr name),
           (''slug'', JStr slug),
           (''origin'', JObj [(''mode'', JStr mode),
                              (''runId'', of_optional run_id),
                              (''ideaSlug'', of_optional idea_slug),
                              (''dreamPromptHash'', of_optional dream_prompt_hash)]),
           (''framework'', JStr framework),
           (''buildPath'', JStr build_path),
           (''status'', JStr status),
           (''createdAt'', JStr created_at),
           (''launch'', JObj [(''type'', JStr ''expo''),
                              (''recommended'', JStr launch_command),
                              (''notes'', JStr notes)]),
           (''preview'', JObj [(''enabled'', JBool (status = ''success'')),
                               (''instructions'',
                                JArr [JStr (''cd '' @ build_path),
                                      JStr ''npm install'',
                                      JStr ''npx expo install --check'',
                                      JStr launch_command])])]"

fun update_or_append :: "json \<Rightarrow> nat option \<Rightarrow> json \<Rightarrow> py_exn + json" where
  \<comment> \<open>lines 153-158 on the object \<open>registry["builds"]\<close>. An index is only ever found in a
      list or in a tuple: the items of a dict or of a string are strings, on which
      \<open>build["buildId"]\<close> raises.\<close>
  "update_or_append (JArr xs) (Some i) entry = Inr (JArr (xs[i := entry]))"
| "update_or_append (JArr xs) None entry = Inr (JArr (xs @ [entry]))"
| "update_or_append v None entry = Inl (AttributeError (type_name v) ''append'')"
| "update_or_append v (Some i) entry =
     Inl (TypeError (quoted (type_name v) @ '' object does not support item assignment''))"

fun py_len :: "json \<Rightarrow> py_exn + nat" where
  "py_len (JArr xs) = Inr (length xs)"
| "py_len (JTuple xs) = Inr (length xs)"
| "py_len (JObj kvs) = Inr (length kvs)"
| "py_len (JStr s) = Inr (length s)"
| "py_len v = Inl (TypeError (''object of type '' @ quoted (type_name v) @ '' has no len()''))"

definition register_build ::
  "reg_world \<Rightarrow> string \<Rightarrow> string \<Rightarrow> string \<Rightarrow> string \<Rightarrow> string \<Rightarrow> string option \<Rightarrow> string option \<Rightarrow>
   string option \<Rightarrow> string \<Rightarrow> string \<Rightarrow> string \<Rightarrow> (py_exn + bool) \<times> reg_world" where
  "register_build w name slug mode build_path status run_id idea_slug dream_prompt_hash
                  framework launch_command notes =
     (case load_build_registry w of
        (Inl e, w1) \<Rightarrow> (Inl e, w1)
      | (Inr registry, w1) \<Rightarrow>
     (let build_id = generate_build_id build_path (py_or dream_prompt_hash run_id)
      in case py_getitem registry ''builds'' of
           Inl e \<Rightarrow> (Inl e, w1)
         | Inr builds \<Rightarrow>
     (case py_iter builds of
        Inl e \<Rightarrow> (Inl e, w1)
      | Inr items \<Rightarrow>
     (case find_existing items build_id 0 of
        Inl e \<Rightarrow> (Inl e, w1)
      | Inr existing_build \<Rightarrow>
     (let (now, w2) = datetime_now w1;
          entry = build_entry build_id name slug mode build_path status run_id idea_slug
                    dream_prompt_hash framework launch_command notes now
      in case update_or_append builds existing_build entry of
           Inl e \<Rightarrow> (Inl e, w2)
         | Inr builds1 \<Rightarrow>
     (case py_setitem registry ''builds'' builds1 of
        Inl e \<Rightarrow> (Inl e, w2)
      | Inr registry1 \<Rightarrow>
     (let w3 = print ((if existing_build \<noteq> None then ''Updated existing build: ''
                       else ''Registered new build: '') @ build_id) w2
      in case save_build_registry w3 registry1 of
           (Inl e, registry2, w4) \<Rightarrow> (Inl e, w4)
         | (Inr success, registry2, w4) \<Rightarrow>
             (if success
              then (case py_getitem registry2 ''builds'' of
                      Inl e \<Rightarrow> (Inl e, w4)
                    | Inr builds2 \<Rightarrow>
                        (case py_len builds2 of
                           Inl e \<Rightarrow> (Inl e, w4)
                         | Inr n \<Rightarrow>
                             (Inr success,
                              print (''Build registry updated successfully. Total builds: ''
                                       @ str_nat n) w4)))
              else (Inr success, w4)))))))))"

definition register_pipeline_build ::
  "reg_world \<Rightarrow> string \<Rightarrow> string \<Rightarrow> string \<Rightarrow> string \<Rightarrow> string \<Rightarrow> string \<Rightarrow> string \<Rightarrow>
   (py_exn + bool) \<times> reg_world" where
  "register_pipeline_build w name slug build_path status run_id idea_slug notes =
     register_build w name slug ''pipeline'' build_path status (Some run_id) (Some idea_slug)
       None ''expo'' ''npx expo start'' notes"

definition register_dream_build ::
  "reg_world \<Rightarrow> string \<Rightarrow> string \<Rightarrow> string \<Rightarrow> string \<Rightarrow> string \<Rightarrow> string \<Rightarrow> string \<Rightarrow>
   (py_exn + bool) \<times> reg_world" where
  "register_dream_build w name slug build_path status run_id dream_prompt_hash notes =
     register_build w name slug ''dream'' build_path status (Some run_id) None
       (Some dream_prompt_hash) ''expo'' ''npx expo start'' notes"

definition get_builds :: "reg_world \<Rightarrow> (py_exn + json) \<times> reg_world" where
  "get_builds w =
     (case load_build_registry w of
        (Inl e, w1) \<Rightarrow> (Inl e, w1)
      | (Inr registry, w1) \<Rightarrow> (dict_get registry ''builds'' (JArr []), w1))"

section \<open>build_registry.py: validate_build_registry\<close>

fun missing_fields :: "string \<Rightarrow> string list \<Rightarrow> json \<Rightarrow> string list \<Rightarrow> py_exn + string list" where
  \<comment> \<open>the loops of lines 242-244 and 249-251: one message per field that is not \<open>in\<close> the object\<close>
  "missing_fields pre [] obj errors = Inr errors"
| "missing_fields pre (field # others) obj errors =
     (case py_contains field obj of
        Inl e \<Rightarrow> Inl e
      | Inr True \<Rightarrow> missing_fields pre others obj errors
      | Inr False \<Rightarrow>
          missing_fields pre others obj
            (errors @ [pre @ ''missing required field '' @ quoted field]))"

definition required_fields :: "string list" where
  "required_fields =
     [''buildId'', ''name'', ''slug'', ''origin'', ''buildPath'', ''status'', ''createdAt'']"

definition mode_lacks :: "json \<Rightarrow> string \<Rightarrow> string \<Rightarrow> py_exn + bool" where
  \<comment> \<open>the condition \<open>origin.get("mode") == m and not origin.get(k)\<close>\<close>
  "mode_lacks origin m k =
     (case dict_get origin ''mode'' JNull of
        Inl e \<Rightarrow> Inl e
      | Inr mode \<Rightarrow>
          if py_eq mode (JStr m)
          then (case dict_get origin k JNull of
                  Inl e \<Rightarrow> Inl e
                | Inr v \<Rightarrow> Inr (\<not> py_truthy v))
          else Inr False)"

definition validate_origin :: "nat \<Rightarrow> json \<Rightarrow> string list \<Rightarrow> py_exn + string list" where
  \<comment> \<open>lines 248-257 on \<open>build["origin"]\<close>\<close>
  "validate_origin i origin errors =
     (case missing_fields (''Build '' @ str_nat i @ '': origin '') [''mode''] origin errors of
        Inl e \<Rightarrow> Inl e
      | Inr errors1 \<Rightarrow>
     (case mode_lacks origin ''dream'' ''dreamPromptHash'' of
        Inl e \<Rightarrow> Inl e
      | Inr True \<Rightarrow>
          Inr (errors1 @ [''Build '' @ str_nat i @ '': dream mode build missing dreamPromptHash''])
      | Inr False \<Rightarrow>
     (case mode_lacks origin ''pipeline'' ''runId'' of
        Inl e \<Rightarrow> Inl e
      | Inr True \<Rightarrow>
          Inr (errors1 @ [''Build '' @ str_nat i @ '': pipeline mode build missing runId''])
      | Inr False \<Rightarrow> Inr errors1)))"

definition validate_entry :: "nat \<Rightarrow> json \<Rightarrow> string list \<Rightarrow> py_exn + string list" where
  \<comment> \<open>the body of the loop of line 240\<close>
  "validate_entry i build errors =
     (case missing_fields (''Build '' @ str_nat i @ '': '') required_fields build errors of
        Inl e \<Rightarrow> Inl e
      | Inr errors1 \<Rightarrow>
     (case py_contains ''origin'' build of
        Inl e \<Rightarrow> Inl e
      | Inr False \<Rightarrow> Inr errors1
      | Inr True \<Rightarrow>
          (case py_getitem build ''origin'' of
             Inl e \<Rightarrow> Inl e
           | Inr origin \<Rightarrow> validate_origin i origin errors1)))"

fun validate_entries :: "nat \<Rightarrow> json list \<Rightarrow> string list \<Rightarrow> py_exn + string list" where
  "validate_entries i [] errors = Inr errors"
| "validate_entries i (build # rest) errors =
     (case validate_entry i build errors of
        Inl e \<Rightarrow> Inl e
      | Inr errors1 \<Rightarrow> validate_entries (Suc i) rest errors1)"

definition validate_build_registry :: "reg_world \<Rightarrow> (py_exn + string list) \<times> reg_world" where
  "validate_build_registry w =
     (if registry_file w = Missing
      then (Inr [''Build registry not found at '' @ registry_path w], w)
      else
        (case load_build_registry w of
           (Inl e, w1) \<Rightarrow> (Inr [''Could not load registry: '' @ exn_str e], w1)
         | (Inr registry, w1) \<Rightarrow>
             (case py_contains ''builds'' registry of
                Inl e \<Rightarrow> (Inl e, w1)
              | Inr False \<Rightarrow> (Inr [''Registry missing '' @ quoted ''builds'' @ '' field''], w1)
              | Inr True \<Rightarrow>
                  (case py_getitem registry ''builds'' of
                     Inl e \<Rightarrow> (Inl e, w1)
                   | Inr builds \<Rightarrow>
                       (case py_iter builds of
                          Inl e \<Rightarrow> (Inl e, w1)
                        | Inr items \<Rightarrow> (validate_entries 0 items [], w1))))))"

section \<open>build_validator.py: paths, processes and the file system\<close>

text \<open>
  A \<open>pathlib.Path\<close> is its list of parts and whether it is absolute; \<open>..\<close> and symbolic
  links are not resolved. The file system answers by absolute path.
\<close>

datatype path = Path bool "string list"

fun split_slash :: "string \<Rightarrow> string list" where
  "split_slash [] = [[]]"
| "split_slash (c # cs) =
     (if c = CHR ''/'' then [] # split_slash cs
      else (case split_slash cs of p # ps \<Rightarrow> (c # p) # ps | [] \<Rightarrow> [[c]]))"

definition path_parts :: "string \<Rightarrow> string list" where
  "path_parts s = filter (\<lambda>p. p \<noteq> [] \<and> p \<noteq> ''.'') (split_slash s)"

fun path_join :: "path \<Rightarrow> string \<Rightarrow> path" where
  \<comment> \<open>the operator \<open>/\<close> of \<open>pathlib\<close>\<close>
  "path_join (Path a ps) s =
     (if py_startswith s ''/'' then Path True (path_parts s) else Path a (ps @ path_parts s))"

definition py_join :: "string \<Rightarrow> string list \<Rightarrow> string" where
  \<comment> \<open>\<open>sep.join(xs)\<close>\<close>
  "py_join sep xs = (case xs of [] \<Rightarrow> [] | y # ys \<Rightarrow> y @ concat (map (\<lambda>z. sep @ z) ys))"

fun path_str :: "path \<Rightarrow> string" where
  \<comment> \<open>\<open>str(path)\<close>\<close>
  "path_str (Path True ps) = ''/'' @ py_join ''/'' ps"
| "path_str (Path False ps) = (if ps = [] then ''.'' else py_join ''/'' ps)"

fun resolve :: "string list \<Rightarrow> path \<Rightarrow> string list" where
  \<comment> \<open>the absolute parts a path stands for in the working directory \<open>cwd\<close>\<close>
  "resolve cwd (Path True ps) = ps"
| "resolve cwd (Path False ps) = cwd @ ps"

record completed_process =
  cp_returncode :: int
  cp_stdout :: string
  cp_stderr :: string

record val_world = py_world +
  process_cwd :: "string list"
  fs_exists :: "string list \<Rightarrow> bool"
  read_json :: "string list \<Rightarrow> py_exn + json"
  json_loads :: "string \<Rightarrow> py_exn + json"
  chdir_error :: "string list \<Rightarrow> string option"
  subprocess_run :: "string list \<Rightarrow> string list \<Rightarrow> int \<Rightarrow> py_exn + completed_process"

text \<open>
  \<open>read_json\<close> is \<open>open\<close> followed by \<open>json.load\<close> on the file of an absolute path,
  \<open>subprocess_run argv cwd timeout\<close> what \<open>subprocess.run\<close> does with the command in the
  directory \<open>cwd\<close>: a completed process, \<open>TimeoutExpired\<close> or another exception.
\<close>

definition path_exists :: "val_world \<Rightarrow> path \<Rightarrow> bool" where
  "path_exists w p = fs_exists w (resolve (process_cwd w) p)"

definition os_chdir :: "val_world \<Rightarrow> path \<Rightarrow> py_exn + val_world" where
  "os_chdir w p =
     (let target = resolve (process_cwd w) p
      in case chdir_error w target of
           Some m \<Rightarrow> Inl (OSError m)
         | None \<Rightarrow> Inr (w\<lparr>process_cwd := target\<rparr>))"

section \<open>build_validator.py: run_command\<close>

record command_result =
  command :: string
  returncode :: int
  stdout :: string
  stderr :: string
  success :: bool

definition py_strip :: "string \<Rightarrow> string" where
  \<comment> \<open>\<open>s.strip()\<close>\<close>
  "py_strip s = py_strip_chars py_isspace s"

definition default_timeout :: int where
  "default_timeout = 30"

definition run_command ::
  "val_world \<Rightarrow> string list \<Rightarrow> path option \<Rightarrow> int \<Rightarrow> py_exn + command_result" where
  "run_command w cmd cwd timeout =
     (case subprocess_run w cmd
             (case cwd of None \<Rightarrow> process_cwd w | Some d \<Rightarrow> resolve (process_cwd w) d)
             timeout of
        Inr result \<Rightarrow>
          Inr \<lparr>command = py_join '' '' cmd,
               returncode = cp_returncode result,
               stdout = py_strip (cp_stdout result),
               stderr = py_strip (cp_stderr result),
               success = (cp_returncode result = 0)\<rparr>
      | Inl TimeoutExpired \<Rightarrow>
          Inr \<lparr>command = py_join '' '' cmd,
               returncode = - 1,
               stdout = '''',
               stderr = ''Command timed out after '' @ str_int timeout @ ''s'',
               success = False\<rparr>
      | Inl e \<Rightarrow>
          Inr \<lparr>command = py_join '' '' cmd,
               returncode = - 1,
               stdout = '''',
               stderr = exn_str e,
               success = False\<rparr>)"

definition get_node_version :: "val_world \<Rightarrow> py_exn + string option" where
  "get_node_version w =
     (case run_command w [''node'', ''--version''] None default_timeout of
        Inl e \<Rightarrow> Inl e
      | Inr result \<Rightarrow> Inr (if success result then Some (stdout result) else None))"

definition get_npm_version :: "val_world \<Rightarrow> py_exn + string option" where
  "get_npm_version w =
     (case run_command w [''npm'', ''--version''] None default_timeout of
        Inl e \<Rightarrow> Inl e
      | Inr result \<Rightarrow> Inr (if success result then Some (stdout result) else None))"

section \<open>build_validator.py: validate_expo_build\<close>

record validation_flags =
  packageJsonExists :: bool
  appJsonExists :: bool
  hasValidBundleIdentifier :: bool
  hasValidAndroidPackage :: bool
  hasMandatoryFiles :: bool
  expoInstallCheck :: bool

record expo_info =
  version :: "string option"
  sdkVersion :: json
  config :: json

record dependencies_info =
  strategy :: string
  expoModules :: "string list"
  issues :: "string list"

record validation_report =
  validatedAt :: string
  buildPath :: string
  nodeVersion :: "string option"
  npmVersion :: "string option"
  packageManager :: string
  validation :: validation_flags
  expo :: expo_info
  dependencies :: dependencies_info
  commands :: "(string \<times> command_result) list"
  errors :: "string list"
  warnings :: "string list"

definition initial_report ::
  "string \<Rightarrow> path \<Rightarrow> string option \<Rightarrow> string option \<Rightarrow> validation_report" where
  \<comment> \<open>lines 63-90\<close>
  "initial_report now build_path node npm =
     \<lparr>validatedAt = now,
      buildPath = path_str build_path,
      nodeVersion = node,
      npmVersion = npm,
      packageManager = ''npm'',
      validation = \<lparr>packageJsonExists = False, appJsonExists = False,
                    hasValidBundleIdentifier = False, hasValidAndroidPackage = False,
                    hasMandatoryFiles = False, expoInstallCheck = False\<rparr>,
      expo = \<lparr>version = None, sdkVersion = JNull, config = JNull\<rparr>,
      dependencies = \<lparr>strategy = ''expo-install-compatibility'',
                      expoModules = [], issues = []\<rparr>,
      commands = [],
      errors = [],
      warnings = []\<rparr>"

definition add_error :: "string \<Rightarrow> validation_report \<Rightarrow> validation_report" where
  "add_error m r = r\<lparr>errors := errors r @ [m]\<rparr>"

definition add_warning :: "string \<Rightarrow> validation_report \<Rightarrow> validation_report" where
  "add_warning m r = r\<lparr>warnings := warnings r @ [m]\<rparr>"

definition add_issue :: "string \<Rightarrow> validation_report \<Rightarrow> validation_report" where
  "add_issue m r = r\<lparr>dependencies := (dependencies r)\<lparr>issues := issues (dependencies r) @ [m]\<rparr>\<rparr>"

fun dict_keys :: "json \<Rightarrow> py_exn + string list" where
  \<comment> \<open>\<open>d.keys()\<close>\<close>
  "dict_keys (JObj kvs) = Inr (map fst kvs)"
| "dict_keys v = Inl (AttributeError (type_name v) ''keys'')"

fun hardcoded_versions ::
  "json \<Rightarrow> string list \<Rightarrow> validation_report \<Rightarrow> validation_report \<times> py_exn option" where
  \<comment> \<open>the loop of lines 111-116; what was appended before an exception stays. Only a
      \<open>str\<close> has the method \<open>startswith\<close>.\<close>
  "hardcoded_versions deps [] r = (r, None)"
| "hardcoded_versions deps (module # modules) r =
     (case dict_get deps module (JStr '''') of
        Inl e \<Rightarrow> (r, Some e)
      | Inr ver \<Rightarrow>
          if \<not> py_truthy ver then hardcoded_versions deps modules r
          else (case ver of
                  JStr s \<Rightarrow>
                    if \<not> py_startswith s ''^'' \<and> py_str_contains ''~'' s
                    then hardcoded_versions deps modules
                           (add_issue (''Hardcoded version for '' @ module @ '': '' @ s
                                         @ '' (should use expo install)'') r)
                    else hardcoded_versions deps modules r
                | _ \<Rightarrow> (r, Some (AttributeError (type_name ver) ''startswith''))))"

definition parse_package_json ::
  "val_world \<Rightarrow> path \<Rightarrow> validation_report \<Rightarrow> validation_report \<times> py_exn option" where
  \<comment> \<open>the \<open>try\<close> body of lines 102-116\<close>
  "parse_package_json w package_json_path r =
     (case read_json w (resolve (process_cwd w) package_json_path) of
        Inl e \<Rightarrow> (r, Some e)
      | Inr package_data \<Rightarrow>
     (case dict_get package_data ''dependencies'' (JObj []) of
        Inl e \<Rightarrow> (r, Some e)
      | Inr deps \<Rightarrow>
     (case dict_keys deps of
        Inl e \<Rightarrow> (r, Some e)
      | Inr keys \<Rightarrow>
          (let expo_modules = filter (\<lambda>dep. py_startswith dep ''expo-'') keys;
               r1 = r\<lparr>dependencies := (dependencies r)\<lparr>expoModules := expo_modules\<rparr>\<rparr>
           in hardcoded_versions deps expo_modules r1))))"

definition check_package_json :: "val_world \<Rightarrow> path \<Rightarrow> validation_report \<Rightarrow> validation_report" where
  \<comment> \<open>lines 97-121\<close>
  "check_package_json w build_path r =
     (let package_json_path = path_join build_path ''package.json''
      in if path_exists w package_json_path
         then (let r1 = r\<lparr>validation := (validation r)\<lparr>packageJsonExists := True\<rparr>\<rparr>
               in case parse_package_json w package_json_path r1 of
                    (r2, None) \<Rightarrow> r2
                  | (r2, Some e) \<Rightarrow>
                      add_error (''Could not parse package.json: '' @ exn_str e) r2)
         else add_error ''package.json not found'' r)"

definition check_ios_bundle :: "json \<Rightarrow> validation_report \<Rightarrow> validation_report \<times> py_exn option" where
  \<comment> \<open>lines 137-144\<close>
  "check_ios_bundle ios_bundle r =
     (if py_truthy ios_bundle
      then (let r1 = r\<lparr>validation := (validation r)\<lparr>hasValidBundleIdentifier := True\<rparr>\<rparr>
            in case ios_bundle of
                 JStr s \<Rightarrow>
                   if \<not> py_startswith s ''com.appfactory.''
                   then (add_warning (''Bundle identifier '' @ quoted s @ '' doesn''
                                        @ [CHR 0x27] @ ''t follow com.appfactory.* pattern'') r1,
                         None)
                   else (r1, None)
               | _ \<Rightarrow> (r1, Some (AttributeError (type_name ios_bundle) ''startswith'')))
      else (add_error ''Missing ios.bundleIdentifier in app.json'' r, None))"

definition check_android_package :: "json \<Rightarrow> validation_report \<Rightarrow> validation_report \<times> py_exn option" where
  \<comment> \<open>lines 146-153\<close>
  "check_android_package android_package r =
     (if py_truthy android_package
      then (let r1 = r\<lparr>validation := (validation r)\<lparr>hasValidAndroidPackage := True\<rparr>\<rparr>
            in case android_package of
                 JStr s \<Rightarrow>
                   if \<not> py_startswith s ''com.appfactory.''
                   then (add_warning (''Android package '' @ quoted s @ '' doesn''
                                        @ [CHR 0x27] @ ''t follow com.appfactory.* pattern'') r1,
                         None)
                   else (r1, None)
               | _ \<Rightarrow> (r1, Some (AttributeError (type_name android_package) ''startswith'')))
      else (add_error ''Missing android.package in app.json'' r, None))"

definition nested_get :: "json \<Rightarrow> string \<Rightarrow> string \<Rightarrow> py_exn + json" where
  \<comment> \<open>\<open>d.get(outer, {}).get(inner)\<close>\<close>
  "nested_get d outer inner =
     (case dict_get d outer (JObj []) of
        Inl e \<Rightarrow> Inl e
      | Inr v \<Rightarrow> dict_get v inner JNull)"

definition parse_app_json ::
  "val_world \<Rightarrow> path \<Rightarrow> validation_report \<Rightarrow> validation_report \<times> py_exn option" where
  \<comment> \<open>the \<open>try\<close> body of lines 128-153\<close>
  "parse_app_json w app_json_path r =
     (case read_json w (resolve (process_cwd w) app_json_path) of
        Inl e \<Rightarrow> (r, Some e)
      | Inr app_data \<Rightarrow>
     (case dict_get app_data ''expo'' (JObj []) of
        Inl e \<Rightarrow> (r, Some e)
      | Inr expo_config \<Rightarrow>
     (case nested_get expo_config ''ios'' ''bundleIdentifier'' of
        Inl e \<Rightarrow> (r, Some e)
      | Inr ios_bundle \<Rightarrow>
     (case nested_get expo_config ''android'' ''package'' of
        Inl e \<Rightarrow> (r, Some e)
      | Inr android_package \<Rightarrow>
     (case check_ios_bundle ios_bundle r of
        (r1, Some e) \<Rightarrow> (r1, Some e)
      | (r1, None) \<Rightarrow> check_android_package android_package r1)))))"

definition check_app_json :: "val_world \<Rightarrow> path \<Rightarrow> validation_report \<Rightarrow> validation_report" where
  \<comment> \<open>lines 123-158\<close>
  "check_app_json w build_path r =
     (let app_json_path = path_join build_path ''app.json''
      in if path_exists w app_json_path
         then (let r1 = r\<lparr>validation := (validation r)\<lparr>appJsonExists := True\<rparr>\<rparr>
               in case parse_app_json w app_json_path r1 of
                    (r2, None) \<Rightarrow> r2
                  | (r2, Some e) \<Rightarrow> add_error (''Could not parse app.json: '' @ exn_str e) r2)
         else add_error ''app.json not found'' r)"

definition mandatory_files :: "string list" where
  "mandatory_files =
     [''App.js'', ''App.tsx'', ''app/_layout.tsx'', ''app/_layout.js'',
      ''app/index.tsx'', ''app/index.js'']"

definition check_mandatory_files :: "val_world \<Rightarrow> path \<Rightarrow> validation_report \<Rightarrow> validation_report" where
  \<comment> \<open>lines 160-166\<close>
  "check_mandatory_files w build_path r =
     (let has_entry_point = list_ex (\<lambda>f. path_exists w (path_join build_path f)) mandatory_files;
          r1 = r\<lparr>validation := (validation r)\<lparr>hasMandatoryFiles := has_entry_point\<rparr>\<rparr>
      in if \<not> has_entry_point
         then add_error ''No valid entry point found (App.js, App.tsx, or app/_layout.tsx)'' r1
         else r1)"

definition set_command :: "string \<Rightarrow> command_result \<Rightarrow> validation_report \<Rightarrow> validation_report" where
  \<comment> \<open>\<open>validation_report["commands"][name] = result\<close>\<close>
  "set_command name result r = r\<lparr>commands := dict_set (commands r) name result\<rparr>"

definition store_expo_config :: "val_world \<Rightarrow> string \<Rightarrow> validation_report \<Rightarrow> validation_report" where
  \<comment> \<open>lines 183-188: the inner \<open>try\<close> with its bare \<open>except\<close>\<close>
  "store_expo_config w out r =
     (case json_loads w out of
        Inl e \<Rightarrow> add_warning ''Could not parse expo config JSON'' r
      | Inr config_data \<Rightarrow>
          (let r1 = r\<lparr>expo := (expo r)\<lparr>config := config_data\<rparr>\<rparr>
           in case nested_get config_data ''expo'' ''sdkVersion'' of
                Inl e \<Rightarrow> add_warning ''Could not parse expo config JSON'' r1
              | Inr v \<Rightarrow> r1\<lparr>expo := (expo r1)\<lparr>sdkVersion := v\<rparr>\<rparr>))"

definition run_expo_commands ::
  "val_world \<Rightarrow> path \<Rightarrow> validation_report \<Rightarrow> validation_report \<times> val_world \<times> py_exn option" where
  \<comment> \<open>the \<open>try\<close> body of lines 171-202\<close>
  "run_expo_commands w build_path r =
     (case os_chdir w build_path of
        Inl e \<Rightarrow> (r, w, Some e)
      | Inr w1 \<Rightarrow>
     (case run_command w1 [''npx'', ''expo'', ''--version''] None default_timeout of
        Inl e \<Rightarrow> (r, w1, Some e)
      | Inr expo_version_result \<Rightarrow>
     (let r1 = set_command ''expo_version'' expo_version_result r;
          r2 = (if success expo_version_result
                then r1\<lparr>expo := (expo r1)\<lparr>version := Some (stdout expo_version_result)\<rparr>\<rparr>
                else r1)
      in case run_command w1 [''npx'', ''expo'', ''config'', ''--type'', ''public'']
                None default_timeout of
           Inl e \<Rightarrow> (r2, w1, Some e)
         | Inr expo_config_result \<Rightarrow>
     (let r3 = set_command ''expo_config'' expo_config_result r2;
          r4 = (if success expo_config_result
                then store_expo_config w1 (stdout expo_config_result) r3
                else r3)
      in case run_command w1 [''npx'', ''expo'', ''install'', ''--check''] None default_timeout of
           Inl e \<Rightarrow> (r4, w1, Some e)
         | Inr expo_install_result \<Rightarrow>
     (let r5 = set_command ''expo_install_check'' expo_install_result r4;
          r6 = r5\<lparr>validation :=
                     (validation r5)\<lparr>expoInstallCheck := success expo_install_result\<rparr>\<rparr>;
          r7 = (if \<not> success expo_install_result
                then add_warning ''Expo install check failed - dependencies may be incompatible'' r6
                else r6)
      in case run_command w1 [''npx'', ''expo-doctor''] None default_timeout of
           Inl e \<Rightarrow> (r7, w1, Some e)
         | Inr expo_doctor_result \<Rightarrow>
             (set_command ''expo_doctor'' expo_doctor_result r7, w1, None))))))"

definition validate_expo_build :: "val_world \<Rightarrow> path \<Rightarrow> (py_exn + validation_report) \<times> val_world" where
  "validate_expo_build w build_path =
     (let (now, w0) = datetime_now w
      in case get_node_version w0 of
           Inl e \<Rightarrow> (Inl e, w0)
         | Inr node \<Rightarrow>
     (case get_npm_version w0 of
        Inl e \<Rightarrow> (Inl e, w0)
      | Inr npm \<Rightarrow>
     (let validation_report = initial_report now build_path node npm
      in if \<not> path_exists w0 build_path
         then (Inr (add_error (''Build path does not exist: '' @ path_str build_path)
                      validation_report), w0)
         else
     (let r1 = check_package_json w0 build_path validation_report;
          r2 = check_app_json w0 build_path r1;
          r3 = check_mandatory_files w0 build_path r2;
          original_cwd = process_cwd w0;
          (r4, w1, raised) = run_expo_commands w0 build_path r3;
          r5 = (case raised of
                  None \<Rightarrow> r4
                | Some e \<Rightarrow> add_error (''Error during command execution: '' @ exn_str e) r4)
      in \<comment> \<open>\<open>finally\<close>: an exception of this \<open>os.chdir\<close> leaves the function\<close>
         case os_chdir w1 (Path True original_cwd) of
           Inl e \<Rightarrow> (Inl e, w1)
         | Inr w2 \<Rightarrow> (Inr r5, w2)))))"

section \<open>Notions used in the statements\<close>




definition stored_builds :: "reg_world \<Rightarrow> json list option" where
  \<comment> \<open>the list under \<open>builds\<close> of the document that \<open>json.load\<close> reads from the registry file\<close>
  "stored_builds w =
     (case registry_file w of
        Parsed d \<Rightarrow>
          (case json_decode d of
             Inr doc \<Rightarrow> (case py_getitem doc ''builds'' of Inr (JArr bs) \<Rightarrow> Some bs | _ \<Rightarrow> None)
           | Inl e \<Rightarrow> None)
      | _ \<Rightarrow> None)"




definition record_shaped :: "json \<Rightarrow> bool" where
  \<comment> \<open>a build record is an object and its \<open>origin\<close>, when it has one, is an object\<close>
  "record_shaped b =
     (case b of
        JObj f \<Rightarrow> (case map_of f ''origin'' of
                    None \<Rightarrow> True
                  | Some (JObj origin) \<Rightarrow> True
                  | Some _ \<Rightarrow> False)
      | _ \<Rightarrow> False)"

definition origin_lacks :: "string \<Rightarrow> string \<Rightarrow> json \<Rightarrow> bool" where
  \<comment> \<open>the record has \<open>origin.mode = m\<close> and no value, or an empty one, under \<open>origin.k\<close>\<close>
  "origin_lacks m k b =
     (case b of
        JObj f \<Rightarrow> (case map_of f ''origin'' of
                    Some (JObj origin) \<Rightarrow>
                      map_of origin ''mode'' = Some (JStr m)
                      \<and> (case map_of origin k of None \<Rightarrow> True | Some v \<Rightarrow> \<not> py_truthy v)
                  | _ \<Rightarrow> False)
      | _ \<Rightarrow> False)"

definition has_value :: "(string \<times> json) list \<Rightarrow> string \<Rightarrow> bool" where
  "has_value kvs k = (case map_of kvs k of None \<Rightarrow> False | Some v \<Rightarrow> py_truthy v)"

definition spec_record_valid :: "json \<Rightarrow> bool" where
  \<comment> \<open>the structural rules as the specification words them: the seven fields, \<open>origin.mode\<close>,
      \<open>dreamPromptHash\<close> for the mode \<open>dream\<close> and \<open>runId\<close> for the mode \<open>pipeline\<close>\<close>
  "spec_record_valid b =
     (case b of
        JObj f \<Rightarrow>
          list_all (\<lambda>k. k \<in> set (map fst f))
            [''buildId'', ''name'', ''slug'', ''origin'', ''buildPath'', ''status'', ''createdAt'']
          \<and> (case map_of f ''origin'' of
                Some (JObj origin) \<Rightarrow>
                  (case map_of origin ''mode'' of
                     None \<Rightarrow> False
                   | Some mode \<Rightarrow>
                       (if mode = JStr ''dream'' then has_value origin ''dreamPromptHash''
                        else if mode = JStr ''pipeline'' then has_value origin ''runId''
                        else True))
              | _ \<Rightarrow> False)
      | _ \<Rightarrow> False)"

definition entry_errors :: "nat \<Rightarrow> json \<Rightarrow> string list" where
  \<comment> \<open>the messages the loop body adds for the record at index \<open>i\<close>\<close>
  "entry_errors i b = (case validate_entry i b [] of Inr es \<Rightarrow> es | Inl e \<Rightarrow> [])"

definition dream_message :: "nat \<Rightarrow> string" where
  "dream_message i = ''Build '' @ str_nat i @ '': dream mode build missing dreamPromptHash''"

definition pipeline_message :: "nat \<Rightarrow> string" where
  "pipeline_message i = ''Build '' @ str_nat i @ '': pipeline mode build missing runId''"


definition sample_registry_world :: "json \<Rightarrow> reg_world" where
  \<comment> \<open>a world without faults whose registry file holds the document\<close>
  "sample_registry_world doc =
     \<lparr>clock = (\<lambda>n. ''2026-01-0'' @ str_nat (Suc (n mod 9)) @ ''T00:00:00''),
      ticks = 0,
      console = [],
      registry_path = ''builds/build_index.json'',
      registry_file = Parsed doc,
      decode_message = ''Expecting value: line 1 column 1 (char 0)'',
      mkdir_error = None,
      open_write_error = None,
      dump_error = None,
      open_read_error = None\<rparr>"
definition origin_errors :: "nat \<Rightarrow> (string \<times> json) list \<Rightarrow> string list" where
  "origin_errors i origin =
     (if ''mode'' \<in> set (map fst origin) then []
      else [''Build '' @ str_nat i @ '': origin missing required field '' @ quoted ''mode''])
     @ (if map_of origin ''mode'' = Some (JStr ''dream'') \<and> \<not> has_value origin ''dreamPromptHash''
        then [dream_message i]
        else if map_of origin ''mode'' = Some (JStr ''pipeline'') \<and> \<not> has_value origin ''runId''
        then [pipeline_message i]
        else [])"

definition field_errors :: "nat \<Rightarrow> (string \<times> json) list \<Rightarrow> string list" where
  "field_errors i f =
     map (\<lambda>k. ''Build '' @ str_nat i @ '': '' @ ''missing required field '' @ quoted k)
       (filter (\<lambda>k. k \<notin> set (map fst f)) required_fields)"

definition sample_builds :: "json list" where
  \<comment> \<open>a dream record without \<open>dreamPromptHash\<close> and a pipeline record with an empty \<open>runId\<close>\<close>
  "sample_builds =
     [JObj [(''buildId'', JStr ''0f3a''), (''name'', JStr ''Dream app''),
            (''origin'', JObj [(''mode'', JStr ''dream''), (''runId'', JStr ''run-7'')])],
      JObj [(''buildId'', JStr ''77b1''), (''name'', JStr ''Pipeline app''),
            (''origin'', JObj [(''mode'', JStr ''pipeline''), (''runId'', JStr '''')])]]"

definition effective_cwd :: "val_world \<Rightarrow> path option \<Rightarrow> string list" where
  \<comment> \<open>the directory a child process starts in: the argument \<open>cwd\<close>, or that of the process\<close>
  "effective_cwd w cwd = (case cwd of None \<Rightarrow> process_cwd w | Some d \<Rightarrow> resolve (process_cwd w) d)"

definition expo_commands :: "string list list" where
  \<comment> \<open>the four diagnostic commands of lines 174-201\<close>
  "expo_commands =
     [[''npx'', ''expo'', ''--version''],
      [''npx'', ''expo'', ''config'', ''--type'', ''public''],
      [''npx'', ''expo'', ''install'', ''--check''],
      [''npx'', ''expo-doctor'']]"

definition command_fails :: "val_world \<Rightarrow> string list \<Rightarrow> string list \<Rightarrow> bool" where
  \<comment> \<open>run in the directory, the command exits with a code other than 0, times out or
      cannot be started\<close>
  "command_fails w dir argv =
     (case subprocess_run w argv dir default_timeout of
        Inr result \<Rightarrow> cp_returncode result \<noteq> 0
      | Inl e \<Rightarrow> True)"

definition all_commands_fail :: "val_world \<Rightarrow> path \<Rightarrow> bool" where
  \<comment> \<open>every diagnostic command fails in the build directory\<close>
  "all_commands_fail w build_path =
     list_all (command_fails w (resolve (process_cwd w) build_path)) expo_commands"

definition is_str :: "json \<Rightarrow> bool" where
  "is_str v = (case v of JStr s \<Rightarrow> True | _ \<Rightarrow> False)"

definition well_formed_package :: "json \<Rightarrow> bool" where
  \<comment> \<open>\<open>package.json\<close> is an object whose \<open>dependencies\<close>, when present, is an object that
      gives every \<open>expo-\<close> module a string (or nothing) as its version\<close>
  "well_formed_package pkg =
     (case pkg of
        JObj p \<Rightarrow>
          (case map_of p ''dependencies'' of
             None \<Rightarrow> True
           | Some (JObj deps) \<Rightarrow>
               list_all (\<lambda>kv. \<not> py_startswith (fst kv) ''expo-''
                               \<or> \<not> py_truthy (snd kv) \<or> is_str (snd kv)) deps
           | Some _ \<Rightarrow> False)
      | _ \<Rightarrow> False)"

definition compliant_identifier :: "(string \<times> json) list \<Rightarrow> string \<Rightarrow> string \<Rightarrow> bool" where
  \<comment> \<open>the section is an object whose key holds a string starting with \<open>com.appfactory.\<close>\<close>
  "compliant_identifier expo_config section k =
     (case map_of expo_config section of
        Some (JObj sec) \<Rightarrow>
          (case map_of sec k of
             Some (JStr s) \<Rightarrow> py_startswith s ''com.appfactory.''
           | _ \<Rightarrow> False)
      | _ \<Rightarrow> False)"

definition compliant_app_json :: "json \<Rightarrow> bool" where
  "compliant_app_json app =
     (case app of
        JObj a \<Rightarrow>
          (case map_of a ''expo'' of
             Some (JObj expo_config) \<Rightarrow>
               compliant_identifier expo_config ''ios'' ''bundleIdentifier''
               \<and> compliant_identifier expo_config ''android'' ''package''
           | _ \<Rightarrow> False)
      | _ \<Rightarrow> False)"

definition sample_build :: "bool \<Rightarrow> string list \<Rightarrow> bool" where
  \<comment> \<open>the files of a build directory \<open>/work/builds/demo\<close>; \<open>with_build\<close> tells whether it exists\<close>
  "sample_build with_build p =
     (with_build \<and>
      p \<in> set [[''work'', ''builds'', ''demo''],
                [''work'', ''builds'', ''demo'', ''package.json''],
                [''work'', ''builds'', ''demo'', ''app.json''],
                [''work'', ''builds'', ''demo'', ''App.tsx'']])"

definition sample_package_json :: json where
  "sample_package_json =
     JObj [(''name'', JStr ''demo''),
           (''dependencies'', JObj [(''expo'', JStr ''~51.0.0''),
                                    (''expo-router'', JStr ''~3.5.0''),
                                    (''react'', JStr ''18.2.0'')])]"

definition sample_app_json :: "string \<Rightarrow> json" where
  \<comment> \<open>an \<open>app.json\<close> with the given iOS bundle identifier\<close>
  "sample_app_json ios_bundle =
     JObj [(''expo'',
            JObj [(''name'', JStr ''Demo''),
                  (''ios'', JObj [(''bundleIdentifier'', JStr ios_bundle)]),
                  (''android'', JObj [(''package'', JStr ''com.appfactory.demo'')])])]"

definition sample_val_world :: "bool \<Rightarrow> string \<Rightarrow> string option \<Rightarrow> val_world" where
  \<comment> \<open>a process in \<open>/work\<close> where every command times out; \<open>enter_error\<close> is the answer of
      \<open>os.chdir\<close> into the build directory\<close>
  "sample_val_world with_build ios_bundle enter_error =
     \<lparr>clock = (\<lambda>n. ''2026-01-01T00:00:00''),
      ticks = 0,
      console = [],
      process_cwd = [''work''],
      fs_exists = sample_build with_build,
      read_json = (\<lambda>p. if p = [''work'', ''builds'', ''demo'', ''package.json'']
                         then Inr sample_package_json
                         else if p = [''work'', ''builds'', ''demo'', ''app.json'']
                         then Inr (sample_app_json ios_bundle)
                         else Inl (OSError ''No such file or directory'')),
      json_loads = (\<lambda>s. Inl (JSONDecodeError ''Expecting value: line 1 column 1 (char 0)'')),
      chdir_error = (\<lambda>p. if p = [''work'', ''builds'', ''demo''] then enter_error else None),
      subprocess_run = (\<lambda>argv d t. Inl TimeoutExpired)\<rparr>"

definition sample_build_path :: path where
  "sample_build_path = Path False [''builds'', ''demo'']"


definition expo_command_names :: "string list" where
  "expo_command_names = [''expo_version'', ''expo_config'', ''expo_install_check'', ''expo_doctor'']"

section \<open>Properties of generate_bundle_identifier\<close>

lemma bundle_identifier_example_slug:
  "generate_bundle_identifier ''My Cool App!'' 50 = ''com.appfactory.my.cool.app''"
  by code_simp

lemma bundle_identifier_example_empty:
  "generate_bundle_identifier '''' 50 = ''com.appfactory.app''"
  by code_simp

lemma bundle_identifier_length:
  assumes "15 \<le> max_length"
  shows "int (length (generate_bundle_identifier slug max_length)) \<le> max_length"
  using assms
  by (auto simp: generate_bundle_identifier_def Let_def bundle_base_def py_slice_to_def)

lemma bundle_identifier_prefix:
  "take 15 (generate_bundle_identifier slug max_length) = ''com.appfactory.''"
  by (simp add: generate_bundle_identifier_def Let_def bundle_base_def)

text \<open>
  Claim C1, as amended. The prefix \<open>com.appfactory.\<close> is never cut, so the bound holds from
  \<open>max_length = 15\<close> on: for every slug and every \<open>max_length \<ge> 15\<close> the identifier is at
  most \<open>max_length\<close> long; \<open>"My Cool App!"\<close> gives \<open>com.appfactory.my.cool.app\<close> and the
  empty slug gives \<open>com.appfactory.app\<close>, both with \<open>max_length = 50\<close>.
\<close>

theorem C1_bundle_identifier_bounded:
  "(15 \<le> max_length \<longrightarrow>
      int (length (generate_bundle_identifier slug max_length)) \<le> max_length)
   \<and> generate_bundle_identifier ''My Cool App!'' 50 = ''com.appfactory.my.cool.app''
   \<and> generate_bundle_identifier '''' 50 = ''com.appfactory.app''"
  using bundle_identifier_length bundle_identifier_example_slug bundle_identifier_example_empty
  by blast

theorem C1_bundle_identifier_bounded_witness:
  "(15::int) \<le> 20
   \<and> generate_bundle_identifier ''Weather Station Dashboard'' 20 = ''com.appfactory.weath''
   \<and> int (length (generate_bundle_identifier ''Weather Station Dashboard'' 20)) \<le> 20"
proof -
  have v: "generate_bundle_identifier ''Weather Station Dashboard'' 20 = ''com.appfactory.weath''"
    by code_simp
  from C1_bundle_identifier_bounded [of 20 "''Weather Station Dashboard''"]
  have "int (length (generate_bundle_identifier ''Weather Station Dashboard'' 20)) \<le> 20"
    by simp
  with v show ?thesis by simp
qed

text \<open>
  Claim C1 as stated fails below 15: with \<open>max_length = 10\<close> the slug \<open>my-app\<close> gives the
  16 characters \<open>com.appfactory.m\<close>.
\<close>

theorem C1_bundle_identifier_counterexample:
  "generate_bundle_identifier ''my-app'' 10 = ''com.appfactory.m''
   \<and> \<not> int (length (generate_bundle_identifier ''my-app'' 10)) \<le> 10"
proof -
  have v: "generate_bundle_identifier ''my-app'' 10 = ''com.appfactory.m''"
    by code_simp
  show ?thesis unfolding v by simp
qed

section \<open>Properties of generate_build_id\<close>










section \<open>JSON lemmas\<close>
















section \<open>save and load\<close>


lemma load_parsed:
  assumes "registry_file w = Parsed d" "open_read_error w = None" "big_ints d = []"
  shows "load_build_registry w = (Inr d, w)"
  using assms by (simp add: load_build_registry_def read_registry_def json_decode_def)





section \<open>register_build\<close>


lemma sort_keys_JStr: "sort_keys v = JStr s \<longleftrightarrow> v = JStr s"
  by (cases v) auto












lemma stored_builds_SomeD:
  assumes "stored_builds w = Some bs"
  obtains kvs where "registry_file w = Parsed (JObj kvs)" "big_ints (JObj kvs) = []"
    "map_of kvs ''builds'' = Some (JArr bs)"
proof -
  from assms obtain d where d: "registry_file w = Parsed d" "json_decode d = Inr d"
      "py_getitem d ''builds'' = Inr (JArr bs)"
    by (auto simp: stored_builds_def json_decode_def
        split: file_state.splits sum.splits json.splits list.splits)
  from d(2) have "big_ints d = []"
    by (simp add: json_decode_def split: list.splits)
  moreover from d(3) obtain kvs where "d = JObj kvs" "map_of kvs ''builds'' = Some (JArr bs)"
    by (cases d) (auto split: option.splits)
  ultimately show thesis using d(1) that by simp
qed








section \<open>validate_build_registry\<close>

lemma py_eq_JStr: "py_eq v (JStr s) = (v = JStr s)"
  by (cases v) auto

lemma missing_fields_obj:
  "missing_fields pre ks (JObj f) acc
     = Inr (acc @ map (\<lambda>k. pre @ ''missing required field '' @ quoted k)
                    (filter (\<lambda>k. k \<notin> set (map fst f)) ks))"
  by (induction ks arbitrary: acc) auto

lemma mode_lacks_obj:
  "mode_lacks (JObj origin) m k
     = Inr (map_of origin ''mode'' = Some (JStr m) \<and> \<not> has_value origin k)"
  by (auto simp: mode_lacks_def has_value_def py_eq_JStr split: option.splits)

lemma validate_origin_obj:
  "validate_origin i (JObj origin) acc = Inr (acc @ origin_errors i origin)"
  by (simp add: validate_origin_def missing_fields_obj mode_lacks_obj origin_errors_def
      dream_message_def pipeline_message_def bool.case_eq_if)

lemma validate_entry_no_origin:
  assumes "map_of f ''origin'' = None"
  shows "validate_entry i (JObj f) acc = Inr (acc @ field_errors i f)"
proof -
  from assms have "''origin'' \<notin> set (map fst f)"
    by (simp add: map_of_eq_None_iff)
  then show ?thesis
    by (simp add: validate_entry_def missing_fields_obj field_errors_def)
qed

lemma validate_entry_origin:
  assumes "map_of f ''origin'' = Some (JObj origin)"
  shows "validate_entry i (JObj f) acc = Inr (acc @ field_errors i f @ origin_errors i origin)"
proof -
  from assms have "''origin'' \<in> set (map fst f)"
    by (metis map_of_eq_None_iff option.distinct(1) set_map)
  with assms show ?thesis
    by (simp add: validate_entry_def missing_fields_obj field_errors_def validate_origin_obj)
qed

lemma validate_entry_shaped:
  assumes "record_shaped b"
  shows "validate_entry i b acc = Inr (acc @ entry_errors i b)"
proof -
  from assms obtain f where b: "b = JObj f"
    by (cases b) (simp_all add: record_shaped_def)
  show ?thesis
  proof (cases "map_of f ''origin''")
    case None
    then show ?thesis
      by (simp add: b entry_errors_def validate_entry_no_origin)
  next
    case (Some v)
    with assms b obtain origin where "v = JObj origin"
      by (cases v) (simp_all add: record_shaped_def)
    with Some show ?thesis
      by (simp add: b entry_errors_def validate_entry_origin)
  qed
qed

lemma validate_entries_shaped:
  assumes "list_all record_shaped bs"
  shows "validate_entries i bs acc
           = Inr (acc @ concat (map (\<lambda>(j, b). entry_errors j b) (enumerate i bs)))"
  using assms
  by (induction bs arbitrary: i acc) (simp_all add: validate_entry_shaped)

lemma key_present: "map_of f k = Some v \<Longrightarrow> k \<in> set (map fst f)"
  by (metis map_of_eq_None_iff option.distinct(1) set_map)

lemma origin_lacksE:
  assumes "origin_lacks m k b"
  obtains f origin where "b = JObj f" "map_of f ''origin'' = Some (JObj origin)"
    "map_of origin ''mode'' = Some (JStr m)" "\<not> has_value origin k"
proof -
  from assms obtain f where b: "b = JObj f"
    by (cases b) (simp_all add: origin_lacks_def)
  with assms obtain v where v: "map_of f ''origin'' = Some v"
    by (cases "map_of f ''origin''") (simp_all add: origin_lacks_def)
  with assms b obtain origin where o: "v = JObj origin"
    by (cases v) (simp_all add: origin_lacks_def)
  from assms b v o have "map_of origin ''mode'' = Some (JStr m)" "\<not> has_value origin k"
    by (simp_all add: origin_lacks_def has_value_def split: option.splits)
  with b v o that show thesis by simp
qed

lemma dream_message_reported:
  assumes "origin_lacks ''dream'' ''dreamPromptHash'' b"
  shows "dream_message i \<in> set (entry_errors i b)"
proof -
  from assms obtain f origin where b: "b = JObj f" "map_of f ''origin'' = Some (JObj origin)"
    and m: "map_of origin ''mode'' = Some (JStr ''dream'')"
    and l: "\<not> has_value origin ''dreamPromptHash''"
    by (rule origin_lacksE)
  from m l have "dream_message i \<in> set (origin_errors i origin)"
    by (simp add: origin_errors_def)
  with b show ?thesis
    by (simp add: entry_errors_def validate_entry_origin)
qed

lemma pipeline_message_reported:
  assumes "origin_lacks ''pipeline'' ''runId'' b"
  shows "pipeline_message i \<in> set (entry_errors i b)"
proof -
  from assms obtain f origin where b: "b = JObj f" "map_of f ''origin'' = Some (JObj origin)"
    and m: "map_of origin ''mode'' = Some (JStr ''pipeline'')"
    and l: "\<not> has_value origin ''runId''"
    by (rule origin_lacksE)
  from m l have "pipeline_message i \<in> set (origin_errors i origin)"
    by (simp add: origin_errors_def)
  with b show ?thesis
    by (simp add: entry_errors_def validate_entry_origin)
qed

lemma ball_enumerate:
  "(\<forall>p \<in> set (enumerate 0 xs). Q p) \<longleftrightarrow> (\<forall>i < length xs. Q (i, xs ! i))"
proof
  assume l: "\<forall>p \<in> set (enumerate 0 xs). Q p"
  show "\<forall>i < length xs. Q (i, xs ! i)"
  proof (intro allI impI)
    fix i assume "i < length xs"
    then have "(i, xs ! i) \<in> set (enumerate 0 xs)"
      by (simp add: in_set_enumerate_eq)
    with l show "Q (i, xs ! i)" by blast
  qed
next
  assume r: "\<forall>i < length xs. Q (i, xs ! i)"
  show "\<forall>p \<in> set (enumerate 0 xs). Q p"
  proof
    fix p assume "p \<in> set (enumerate 0 xs)"
    then have "fst p < length xs" "snd p = xs ! fst p"
      by (simp_all add: in_set_enumerate_eq)
    with r have "Q (fst p, snd p)" by simp
    then show "Q p" by simp
  qed
qed

lemma spec_record_valid_shaped: "spec_record_valid b \<Longrightarrow> record_shaped b"
  by (auto simp: spec_record_valid_def record_shaped_def split: json.splits option.splits)

lemma valid_iff_no_errors:
  assumes "record_shaped b"
  shows "entry_errors i b = [] \<longleftrightarrow> spec_record_valid b"
proof -
  from assms obtain f where b: "b = JObj f"
    by (cases b) (simp_all add: record_shaped_def)
  have keys: "k \<in> set (map fst f) \<longleftrightarrow> map_of f k \<noteq> None" for k
    by (simp add: map_of_eq_None_iff)
  show ?thesis
  proof (cases "map_of f ''origin''")
    case None
    then have "''origin'' \<notin> set (map fst f)" by (simp add: map_of_eq_None_iff)
    with None show ?thesis
      by (auto simp: b entry_errors_def validate_entry_no_origin field_errors_def
          required_fields_def spec_record_valid_def)
  next
    case (Some v)
    with assms b obtain origin where v: "v = JObj origin"
      by (cases v) (simp_all add: record_shaped_def)
    have okeys: "''mode'' \<in> set (map fst origin) \<longleftrightarrow> map_of origin ''mode'' \<noteq> None"
      by (simp add: map_of_eq_None_iff)
    from Some have o: "''origin'' \<in> set (map fst f)"
      by (rule key_present)
    show ?thesis
      using Some v o okeys
      by (auto simp: b entry_errors_def validate_entry_origin field_errors_def
          required_fields_def spec_record_valid_def origin_errors_def
          split: option.splits if_splits)
  qed
qed

text \<open>
  Claim C6. On a readable registry file whose builds are objects (with an object under
  \<open>origin\<close>, where there is one), \<open>validate_build_registry\<close> returns the messages of the
  records in the order of their indices. A record at index \<open>i\<close> with the mode \<open>dream\<close> and no
  \<open>dreamPromptHash\<close> puts \<open>Build i: dream mode build missing dreamPromptHash\<close> in the
  list, a record with the mode \<open>pipeline\<close> and no \<open>runId\<close> the corresponding message, and
  the list is empty exactly when every record satisfies the structural rules.
\<close>

theorem C6_validate_reports_by_index:
  assumes "stored_builds w = Some bs" "open_read_error w = None" "list_all record_shaped bs"
  shows "\<exists>errs. validate_build_registry w = (Inr errs, w)
     \<and> errs = concat (map (\<lambda>(i, b). entry_errors i b) (enumerate 0 bs))
     \<and> (\<forall>i < length bs. origin_lacks ''dream'' ''dreamPromptHash'' (bs ! i)
            \<longrightarrow> errs \<noteq> [] \<and> dream_message i \<in> set errs)
     \<and> (\<forall>i < length bs. origin_lacks ''pipeline'' ''runId'' (bs ! i)
            \<longrightarrow> errs \<noteq> [] \<and> pipeline_message i \<in> set errs)
     \<and> (errs = [] \<longleftrightarrow> list_all spec_record_valid bs)"
proof -
  define errs where "errs = concat (map (\<lambda>(i, b). entry_errors i b) (enumerate 0 bs))"
  from assms(1) obtain kvs where kvs: "registry_file w = Parsed (JObj kvs)"
      "big_ints (JObj kvs) = []" "map_of kvs ''builds'' = Some (JArr bs)"
    by (rule stored_builds_SomeD)
  from kvs(1) assms(2) kvs(2) have ld: "load_build_registry w = (Inr (JObj kvs), w)"
    by (rule load_parsed)
  from kvs(3) have "''builds'' \<in> set (map fst kvs)"
    by (metis map_of_eq_None_iff option.distinct(1) set_map)
  with ld kvs(1,3) assms(3) have v: "validate_build_registry w = (Inr errs, w)"
    by (simp add: validate_build_registry_def validate_entries_shaped errs_def)
  have mem: "set (entry_errors i (bs ! i)) \<subseteq> set errs" if "i < length bs" for i
  proof -
    from that have "(i, bs ! i) \<in> set (enumerate 0 bs)"
      by (simp add: in_set_enumerate_eq)
    then show ?thesis
      unfolding errs_def by fastforce
  qed
  have dream: "errs \<noteq> [] \<and> dream_message i \<in> set errs"
    if "i < length bs" "origin_lacks ''dream'' ''dreamPromptHash'' (bs ! i)" for i
    using mem [OF that(1)] dream_message_reported [OF that(2), of i] by auto
  have pipeline: "errs \<noteq> [] \<and> pipeline_message i \<in> set errs"
    if "i < length bs" "origin_lacks ''pipeline'' ''runId'' (bs ! i)" for i
    using mem [OF that(1)] pipeline_message_reported [OF that(2), of i] by auto
  have "errs = [] \<longleftrightarrow> (\<forall>p \<in> set (enumerate 0 bs). entry_errors (fst p) (snd p) = [])"
    unfolding errs_def by (auto simp: case_prod_beta)
  also have "\<dots> \<longleftrightarrow> (\<forall>i < length bs. entry_errors i (bs ! i) = [])"
    by (simp add: ball_enumerate)
  also have "\<dots> \<longleftrightarrow> (\<forall>i < length bs. spec_record_valid (bs ! i))"
    using assms(3) by (simp add: valid_iff_no_errors list_all_length)
  also have "\<dots> \<longleftrightarrow> list_all spec_record_valid bs"
    by (simp add: list_all_length)
  finally have valid: "errs = [] \<longleftrightarrow> list_all spec_record_valid bs" .
  from v dream pipeline valid errs_def show ?thesis
    by blast
qed

theorem C6_validate_reports_by_index_witness:
  "stored_builds (sample_registry_world (JObj [(''builds'', JArr sample_builds)]))
     = Some sample_builds
   \<and> open_read_error (sample_registry_world (JObj [(''builds'', JArr sample_builds)])) = None
   \<and> list_all record_shaped sample_builds
   \<and> origin_lacks ''dream'' ''dreamPromptHash'' (sample_builds ! 0)
   \<and> origin_lacks ''pipeline'' ''runId'' (sample_builds ! 1)
   \<and> (\<exists>errs. validate_build_registry (sample_registry_world (JObj [(''builds'', JArr sample_builds)]))
               = (Inr errs, sample_registry_world (JObj [(''builds'', JArr sample_builds)]))
         \<and> dream_message 0 \<in> set errs
         \<and> pipeline_message 1 \<in> set errs
         \<and> errs \<noteq> [])"
proof -
  let ?w = "sample_registry_world (JObj [(''builds'', JArr sample_builds)])"
  have h1: "stored_builds ?w = Some sample_builds"
    by (simp add: stored_builds_def json_decode_def sample_registry_world_def sample_builds_def)
  have h2: "open_read_error ?w = None"
    by (simp add: sample_registry_world_def)
  have h3: "list_all record_shaped sample_builds"
    by (simp add: sample_builds_def record_shaped_def)
  have h4: "origin_lacks ''dream'' ''dreamPromptHash'' (sample_builds ! 0)"
    by (simp add: sample_builds_def origin_lacks_def)
  have h5: "origin_lacks ''pipeline'' ''runId'' (sample_builds ! 1)"
    by (simp add: sample_builds_def origin_lacks_def)
  have l: "0 < length sample_builds" "1 < length sample_builds"
    by (simp_all add: sample_builds_def)
  from C6_validate_reports_by_index [OF h1 h2 h3] h4 h5 l
  have "\<exists>errs. validate_build_registry ?w = (Inr errs, ?w)
         \<and> dream_message 0 \<in> set errs
         \<and> pipeline_message 1 \<in> set errs
         \<and> errs \<noteq> []"
    by blast
  with h1 h2 h3 h4 h5 show ?thesis by blast
qed

section \<open>run_command\<close>

lemma run_command_total: "\<exists>r. run_command w cmd cwd timeout = Inr r"
  by (auto simp: run_command_def split: sum.splits py_exn.splits)

lemma get_node_version_total: "\<exists>v. get_node_version w = Inr v"
  using run_command_total [of w "[''node'', ''--version'']" None default_timeout]
  by (auto simp: get_node_version_def)

lemma get_npm_version_total: "\<exists>v. get_npm_version w = Inr v"
  using run_command_total [of w "[''npm'', ''--version'']" None default_timeout]
  by (auto simp: get_npm_version_def)

text \<open>
  Claim C7. For every command, working directory and timeout \<open>run_command\<close> returns a
  result and raises nothing. When the process completes, \<open>success\<close> holds exactly when the
  exit code is 0; a timeout gives the failed result with the message
  \<open>Command timed out after <timeout>s\<close>, any other exception the failed result with the text
  of the exception. The default timeout is 30 seconds.
\<close>

theorem C7_run_command_total:
  "\<exists>r. run_command w cmd cwd timeout = Inr r
     \<and> command r = py_join '' '' cmd
     \<and> (case subprocess_run w cmd (effective_cwd w cwd) timeout of
           Inr result \<Rightarrow>
             success r = (cp_returncode result = 0)
             \<and> returncode r = cp_returncode result
             \<and> stdout r = py_strip (cp_stdout result)
             \<and> stderr r = py_strip (cp_stderr result)
         | Inl e \<Rightarrow>
             \<not> success r \<and> returncode r = - 1 \<and> stdout r = ''''
             \<and> stderr r = (if e = TimeoutExpired
                            then ''Command timed out after '' @ str_int timeout @ ''s''
                            else exn_str e))
     \<and> str_int default_timeout = ''30''"
proof -
  have d: "str_int default_timeout = ''30''"
    by code_simp
  show ?thesis
  proof (cases "subprocess_run w cmd (effective_cwd w cwd) timeout")
    case (Inr result)
    with d show ?thesis
      by (simp add: run_command_def effective_cwd_def)
  next
    case (Inl e)
    with d show ?thesis
      by (cases e) (simp_all add: run_command_def effective_cwd_def)
  qed
qed

theorem C7_run_command_total_witness:
  "\<exists>r. run_command (sample_val_world True ''com.appfactory.demo'' None)
          [''node'', ''--version''] None default_timeout = Inr r
     \<and> \<not> success r
     \<and> stderr r = ''Command timed out after 30s''"
proof -
  let ?w = "sample_val_world True ''com.appfactory.demo'' None"
  have s: "subprocess_run ?w [''node'', ''--version''] (effective_cwd ?w None) default_timeout
             = Inl TimeoutExpired"
    by (simp add: sample_val_world_def)
  from C7_run_command_total [of ?w "[''node'', ''--version'']" None default_timeout]
  show ?thesis
    unfolding s by auto
qed

section \<open>validate_expo_build: a build path that does not exist\<close>

lemma path_exists_ticks [simp]: "path_exists (w\<lparr>ticks := t\<rparr>) p = path_exists w p"
  by (simp add: path_exists_def)

text \<open>
  Claim C5. For a build path that does not exist \<open>validate_expo_build\<close> returns at once:
  the report holds the one error \<open>Build path does not exist: <path>\<close>, every validation
  flag is false, and the other fields are as the report was initialised (no Expo data, no
  modules or issues, no commands, no warnings). The working directory is untouched.
\<close>

theorem C5_missing_build_path:
  assumes "\<not> path_exists w build_path"
  shows "\<exists>r w'. validate_expo_build w build_path = (Inr r, w')
     \<and> errors r = [''Build path does not exist: '' @ path_str build_path]
     \<and> validation r = \<lparr>packageJsonExists = False, appJsonExists = False,
                         hasValidBundleIdentifier = False, hasValidAndroidPackage = False,
                         hasMandatoryFiles = False, expoInstallCheck = False\<rparr>
     \<and> expo r = \<lparr>version = None, sdkVersion = JNull, config = JNull\<rparr>
     \<and> dependencies r = \<lparr>strategy = ''expo-install-compatibility'',
                           expoModules = [], issues = []\<rparr>
     \<and> commands r = []
     \<and> warnings r = []
     \<and> packageManager r = ''npm''
     \<and> buildPath r = path_str build_path
     \<and> validatedAt r = clock w (ticks w)
     \<and> process_cwd w' = process_cwd w"
proof -
  obtain node where n: "get_node_version (w\<lparr>ticks := Suc (ticks w)\<rparr>) = Inr node"
    using get_node_version_total by blast
  obtain npm where m: "get_npm_version (w\<lparr>ticks := Suc (ticks w)\<rparr>) = Inr npm"
    using get_npm_version_total by blast
  from assms n m show ?thesis
    by (simp add: validate_expo_build_def datetime_now_def initial_report_def add_error_def)
qed

theorem C5_missing_build_path_witness:
  "\<not> path_exists (sample_val_world False ''com.appfactory.demo'' None) sample_build_path
   \<and> (\<exists>r w'. validate_expo_build (sample_val_world False ''com.appfactory.demo'' None)
                 sample_build_path = (Inr r, w')
         \<and> errors r = [''Build path does not exist: builds/demo'']
         \<and> commands r = [] \<and> warnings r = []
         \<and> \<not> packageJsonExists (validation r))"
proof -
  let ?w = "sample_val_world False ''com.appfactory.demo'' None"
  have h: "\<not> path_exists ?w sample_build_path"
    by (simp add: path_exists_def sample_val_world_def sample_build_def)
  have p: "path_str sample_build_path = ''builds/demo''"
    by (simp add: sample_build_path_def py_join_def)
  from C5_missing_build_path [OF h] p
  have "\<exists>r w'. validate_expo_build ?w sample_build_path = (Inr r, w')
         \<and> errors r = [''Build path does not exist: builds/demo'']
         \<and> commands r = [] \<and> warnings r = []
         \<and> \<not> packageJsonExists (validation r)"
    by fastforce
  with h show ?thesis by blast
qed

section \<open>validate_expo_build: the working directory\<close>

lemma os_chdir_cwd:
  assumes "os_chdir w p = Inr w'"
  shows "process_cwd w' = resolve (process_cwd w) p"
  using assms by (auto simp: os_chdir_def Let_def split: option.splits)

lemma run_expo_commands_chdir_error:
  "chdir_error (fst (snd (run_expo_commands w build_path r))) = chdir_error w"
  by (auto simp: run_expo_commands_def os_chdir_def Let_def split: sum.splits option.splits)

lemma validate_returns_restored:
  assumes "validate_expo_build w build_path = (Inr r, w')"
  shows "process_cwd w' = process_cwd w"
proof (cases "path_exists w build_path")
  case False
  with assms show ?thesis
    by (auto simp: validate_expo_build_def datetime_now_def Let_def split: sum.splits)
next
  case True
  with assms show ?thesis
    by (auto simp: validate_expo_build_def datetime_now_def Let_def
        split: sum.splits prod.splits dest!: os_chdir_cwd)
qed

lemma validate_returns:
  assumes "chdir_error w (process_cwd w) = None"
  shows "\<exists>r w'. validate_expo_build w build_path = (Inr r, w')"
proof -
  let ?w0 = "w\<lparr>ticks := Suc (ticks w)\<rparr>"
  obtain node where n: "get_node_version ?w0 = Inr node"
    using get_node_version_total by blast
  obtain npm where m: "get_npm_version ?w0 = Inr npm"
    using get_npm_version_total by blast
  show ?thesis
  proof (cases "path_exists w build_path")
    case False
    with n m show ?thesis
      by (simp add: validate_expo_build_def datetime_now_def)
  next
    case True
    define r3 where "r3 = check_mandatory_files ?w0 build_path
                            (check_app_json ?w0 build_path
                              (check_package_json ?w0 build_path
                                (initial_report (clock w (ticks w)) build_path node npm)))"
    obtain r4 w1 raised where x: "run_expo_commands ?w0 build_path r3 = (r4, w1, raised)"
      by (cases "run_expo_commands ?w0 build_path r3") auto
    from run_expo_commands_chdir_error [of ?w0 build_path r3] x
    have "chdir_error w1 = chdir_error w" by simp
    with assms have "\<exists>w2. os_chdir w1 (Path True (process_cwd w)) = Inr w2"
      by (simp add: os_chdir_def)
    then obtain w2 where "os_chdir w1 (Path True (process_cwd w)) = Inr w2" ..
    with True n m x show ?thesis
      by (simp add: validate_expo_build_def datetime_now_def Let_def r3_def)
  qed
qed

lemma validate_chdir_failure:
  assumes home: "chdir_error w (process_cwd w) = None"
    and ex: "path_exists w build_path"
    and enter: "chdir_error w (resolve (process_cwd w) build_path) = Some m"
  shows "\<exists>r w'. validate_expo_build w build_path = (Inr r, w')
           \<and> last (errors r) = ''Error during command execution: '' @ m"
proof -
  let ?w0 = "w\<lparr>ticks := Suc (ticks w)\<rparr>"
  obtain node where n: "get_node_version ?w0 = Inr node"
    using get_node_version_total by blast
  obtain npm where p: "get_npm_version ?w0 = Inr npm"
    using get_npm_version_total by blast
  have x: "run_expo_commands ?w0 build_path r = (r, ?w0, Some (OSError m))" for r
    using enter by (simp add: run_expo_commands_def os_chdir_def)
  have y: "os_chdir ?w0 (Path True (process_cwd w)) = Inr (?w0\<lparr>process_cwd := process_cwd w\<rparr>)"
    using home by (simp add: os_chdir_def)
  from ex n p show ?thesis
    by (simp add: validate_expo_build_def datetime_now_def Let_def x y add_error_def)
qed

text \<open>
  Claim C8. Whenever \<open>validate_expo_build\<close> returns, the working directory of the process
  is the one it had before the call. It does return whenever that directory can be entered
  again, also when \<open>os.chdir\<close> into the build directory raises inside the \<open>try\<close> block: the
  exception is recorded as the last error of the report and the directory is restored.
\<close>

theorem C8_cwd_restored:
  "(\<forall>r w'. validate_expo_build w build_path = (Inr r, w') \<longrightarrow> process_cwd w' = process_cwd w)
   \<and> (chdir_error w (process_cwd w) = None \<longrightarrow>
        (\<exists>r w'. validate_expo_build w build_path = (Inr r, w')
                 \<and> process_cwd w' = process_cwd w))
   \<and> (chdir_error w (process_cwd w) = None \<and> path_exists w build_path
        \<and> chdir_error w (resolve (process_cwd w) build_path) = Some m \<longrightarrow>
        (\<exists>r w'. validate_expo_build w build_path = (Inr r, w')
                 \<and> process_cwd w' = process_cwd w
                 \<and> last (errors r) = ''Error during command execution: '' @ m))"
proof (intro conjI allI impI)
  fix r w' assume "validate_expo_build w build_path = (Inr r, w')"
  then show "process_cwd w' = process_cwd w"
    by (rule validate_returns_restored)
next
  assume "chdir_error w (process_cwd w) = None"
  then obtain r w' where v: "validate_expo_build w build_path = (Inr r, w')"
    using validate_returns by blast
  then have "process_cwd w' = process_cwd w"
    by (rule validate_returns_restored)
  with v show "\<exists>r w'. validate_expo_build w build_path = (Inr r, w')
                 \<and> process_cwd w' = process_cwd w"
    by blast
next
  assume a: "chdir_error w (process_cwd w) = None \<and> path_exists w build_path
        \<and> chdir_error w (resolve (process_cwd w) build_path) = Some m"
  then obtain r w' where v: "validate_expo_build w build_path = (Inr r, w')"
      "last (errors r) = ''Error during command execution: '' @ m"
    using validate_chdir_failure [of w build_path m] by blast
  from v(1) have "process_cwd w' = process_cwd w"
    by (rule validate_returns_restored)
  with v show "\<exists>r w'. validate_expo_build w build_path = (Inr r, w')
                 \<and> process_cwd w' = process_cwd w
                 \<and> last (errors r) = ''Error during command execution: '' @ m"
    by blast
qed

theorem C8_cwd_restored_witness:
  "chdir_error (sample_val_world True ''com.appfactory.demo'' (Some ''Permission denied''))
     (process_cwd (sample_val_world True ''com.appfactory.demo'' (Some ''Permission denied''))) = None
   \<and> path_exists (sample_val_world True ''com.appfactory.demo'' (Some ''Permission denied''))
        sample_build_path
   \<and> chdir_error (sample_val_world True ''com.appfactory.demo'' (Some ''Permission denied''))
        (resolve (process_cwd (sample_val_world True ''com.appfactory.demo'' (Some ''Permission denied'')))
           sample_build_path) = Some ''Permission denied''
   \<and> (\<exists>r w'. validate_expo_build
                 (sample_val_world True ''com.appfactory.demo'' (Some ''Permission denied''))
                 sample_build_path = (Inr r, w')
         \<and> process_cwd w' = [''work'']
         \<and> last (errors r) = ''Error during command execution: Permission denied'')"
proof -
  let ?w = "sample_val_world True ''com.appfactory.demo'' (Some ''Permission denied'')"
  have c: "process_cwd ?w = [''work'']"
    by (simp add: sample_val_world_def)
  have h1: "chdir_error ?w (process_cwd ?w) = None"
    by (simp add: sample_val_world_def)
  have h2: "path_exists ?w sample_build_path"
    by (simp add: path_exists_def sample_val_world_def sample_build_def sample_build_path_def)
  have h3: "chdir_error ?w (resolve (process_cwd ?w) sample_build_path) = Some ''Permission denied''"
    by (simp add: sample_val_world_def sample_build_path_def)
  from C8_cwd_restored [of ?w sample_build_path "''Permission denied''"] h1 h2 h3
  have "\<exists>r w'. validate_expo_build ?w sample_build_path = (Inr r, w')
         \<and> process_cwd w' = process_cwd ?w
         \<and> last (errors r) = ''Error during command execution: '' @ ''Permission denied''"
    by blast
  then have "\<exists>r w'. validate_expo_build ?w sample_build_path = (Inr r, w')
         \<and> process_cwd w' = [''work'']
         \<and> last (errors r) = ''Error during command execution: Permission denied''"
    by (simp add: c)
  with h1 h2 h3 show ?thesis by blast
qed

section \<open>validate_expo_build: the stages of the report\<close>

lemma hardcoded_versions_frame:
  assumes "hardcoded_versions deps ms r = (r', x)"
  shows "errors r' = errors r \<and> warnings r' = warnings r \<and> commands r' = commands r
         \<and> validation r' = validation r"
  using assms
proof (induction deps ms r rule: hardcoded_versions.induct)
  case (1 deps r)
  then show ?case by simp
next
  case (2 deps module modules r)
  then show ?case
    by (auto simp: add_issue_def split: sum.splits if_splits json.splits)
qed

lemma parse_package_json_frame:
  assumes "parse_package_json w p r = (r', x)"
  shows "errors r' = errors r \<and> warnings r' = warnings r \<and> commands r' = commands r
         \<and> validation r' = validation r"
  using assms
  by (auto simp: parse_package_json_def Let_def split: sum.splits dest!: hardcoded_versions_frame)

lemma check_package_json_frame:
  "warnings (check_package_json w bp r) = warnings r"
  "commands (check_package_json w bp r) = commands r"
  "validation (check_package_json w bp r)
     = (if path_exists w (path_join bp ''package.json'')
        then (validation r)\<lparr>packageJsonExists := True\<rparr> else validation r)"
  "m \<in> set (errors (check_package_json w bp r)) \<longleftrightarrow>
     m \<in> set (errors r)
     \<or> (m = ''package.json not found'' \<and> \<not> path_exists w (path_join bp ''package.json''))
     \<or> (\<exists>e. m = ''Could not parse package.json: '' @ exn_str e
            \<and> snd (parse_package_json w (path_join bp ''package.json'')
                      (r\<lparr>validation := (validation r)\<lparr>packageJsonExists := True\<rparr>\<rparr>)) = Some e
            \<and> path_exists w (path_join bp ''package.json''))"
proof -
  let ?r1 = "r\<lparr>validation := (validation r)\<lparr>packageJsonExists := True\<rparr>\<rparr>"
  obtain r2 x where p: "parse_package_json w (path_join bp ''package.json'') ?r1 = (r2, x)"
    by (cases "parse_package_json w (path_join bp ''package.json'') ?r1") auto
  from parse_package_json_frame [OF p]
  have f: "errors r2 = errors r" "warnings r2 = warnings r" "commands r2 = commands r"
    "validation r2 = (validation r)\<lparr>packageJsonExists := True\<rparr>"
    by simp_all
  from p f show "warnings (check_package_json w bp r) = warnings r"
    by (cases x) (simp_all add: check_package_json_def Let_def add_error_def)
  from p f show "commands (check_package_json w bp r) = commands r"
    by (cases x) (simp_all add: check_package_json_def Let_def add_error_def)
  from p f show "validation (check_package_json w bp r)
     = (if path_exists w (path_join bp ''package.json'')
        then (validation r)\<lparr>packageJsonExists := True\<rparr> else validation r)"
    by (cases x) (simp_all add: check_package_json_def Let_def add_error_def)
  from p f show "m \<in> set (errors (check_package_json w bp r)) \<longleftrightarrow>
     m \<in> set (errors r)
     \<or> (m = ''package.json not found'' \<and> \<not> path_exists w (path_join bp ''package.json''))
     \<or> (\<exists>e. m = ''Could not parse package.json: '' @ exn_str e
            \<and> snd (parse_package_json w (path_join bp ''package.json'') ?r1) = Some e
            \<and> path_exists w (path_join bp ''package.json''))"
    by (cases x) (auto simp: check_package_json_def Let_def add_error_def)
qed

lemma hardcoded_versions_ok:
  assumes "\<forall>m \<in> set ms. case map_of d m of None \<Rightarrow> True | Some v \<Rightarrow> \<not> py_truthy v \<or> is_str v"
  shows "snd (hardcoded_versions (JObj d) ms r) = None"
  using assms
proof (induction ms arbitrary: r)
  case Nil
  then show ?case by simp
next
  case (Cons m ms)
  show ?case
  proof (cases "map_of d m")
    case None
    with Cons show ?thesis by simp
  next
    case (Some v)
    with Cons.prems have "\<not> py_truthy v \<or> is_str v" by simp
    with Some Cons show ?thesis
      by (cases v) (auto simp: is_str_def)
  qed
qed

lemma parse_package_json_ok:
  assumes "read_json w (resolve (process_cwd w) p) = Inr pkg" "well_formed_package pkg"
  shows "snd (parse_package_json w p r) = None"
proof -
  from assms(2) obtain kvs where pkg: "pkg = JObj kvs"
    by (cases pkg) (simp_all add: well_formed_package_def)
  show ?thesis
  proof (cases "map_of kvs ''dependencies''")
    case None
    with assms(1) pkg show ?thesis
      by (simp add: parse_package_json_def)
  next
    case (Some v)
    with assms(2) pkg obtain deps where v: "v = JObj deps"
      by (cases v) (simp_all add: well_formed_package_def)
    from assms(2) pkg Some v
    have wf: "list_all (\<lambda>kv. \<not> py_startswith (fst kv) ''expo-''
                               \<or> \<not> py_truthy (snd kv) \<or> is_str (snd kv)) deps"
      by (simp add: well_formed_package_def)
    have "case map_of deps m of None \<Rightarrow> True | Some u \<Rightarrow> \<not> py_truthy u \<or> is_str u"
      if "m \<in> set (filter (\<lambda>dep. py_startswith dep ''expo-'') (map fst deps))" for m
    proof (cases "map_of deps m")
      case None
      then show ?thesis by simp
    next
      case (Some u)
      then have "(m, u) \<in> set deps" by (rule map_of_SomeD)
      with wf have "\<not> py_startswith m ''expo-'' \<or> \<not> py_truthy u \<or> is_str u"
        by (auto simp: list_all_iff)
      with that Some show ?thesis by simp
    qed
    then have "snd (hardcoded_versions (JObj deps)
                      (filter (\<lambda>dep. py_startswith dep ''expo-'') (map fst deps)) r') = None" for r'
      by (intro hardcoded_versions_ok) blast
    with assms(1) pkg Some v show ?thesis
      by (simp add: parse_package_json_def Let_def)
  qed
qed

lemma compliant_identifierD:
  assumes "compliant_identifier ec section k"
  obtains s where "nested_get (JObj ec) section k = Inr (JStr s)"
    "py_startswith s ''com.appfactory.''" "s \<noteq> []"
proof -
  from assms obtain sec where sec: "map_of ec section = Some (JObj sec)"
    by (auto simp: compliant_identifier_def split: option.splits json.splits)
  with assms obtain s where s: "map_of sec k = Some (JStr s)" "py_startswith s ''com.appfactory.''"
    by (auto simp: compliant_identifier_def split: option.splits json.splits)
  from s(2) have "s \<noteq> []"
    by (auto simp: py_startswith_def)
  moreover from sec s(1) have "nested_get (JObj ec) section k = Inr (JStr s)"
    by (simp add: nested_get_def)
  ultimately show thesis using s(2) that by blast
qed

lemma check_app_json_compliant:
  assumes "path_exists w (path_join bp ''app.json'')"
    "read_json w (resolve (process_cwd w) (path_join bp ''app.json'')) = Inr app"
    "compliant_app_json app"
  shows "check_app_json w bp r
           = r\<lparr>validation := (validation r)\<lparr>appJsonExists := True,
                                              hasValidBundleIdentifier := True,
                                              hasValidAndroidPackage := True\<rparr>\<rparr>"
proof -
  from assms(3) obtain a where a: "app = JObj a"
    by (cases app) (simp_all add: compliant_app_json_def)
  with assms(3) obtain v where v: "map_of a ''expo'' = Some v"
    by (cases "map_of a ''expo''") (simp_all add: compliant_app_json_def)
  with assms(3) a obtain ec where ec: "v = JObj ec"
    by (cases v) (simp_all add: compliant_app_json_def)
  from assms(3) a v ec have c: "compliant_identifier ec ''ios'' ''bundleIdentifier''"
      "compliant_identifier ec ''android'' ''package''"
    by (simp_all add: compliant_app_json_def)
  from c(1) obtain s1 where s1: "nested_get (JObj ec) ''ios'' ''bundleIdentifier'' = Inr (JStr s1)"
      "py_startswith s1 ''com.appfactory.''" "s1 \<noteq> []"
    by (rule compliant_identifierD)
  from c(2) obtain s2 where s2: "nested_get (JObj ec) ''android'' ''package'' = Inr (JStr s2)"
      "py_startswith s2 ''com.appfactory.''" "s2 \<noteq> []"
    by (rule compliant_identifierD)
  from assms(1,2) a v ec s1 s2 show ?thesis
    by (simp add: check_app_json_def parse_app_json_def check_ios_bundle_def
        check_android_package_def Let_def)
qed

lemma check_mandatory_files_frame:
  "warnings (check_mandatory_files w bp r) = warnings r"
  "commands (check_mandatory_files w bp r) = commands r"
  "validation (check_mandatory_files w bp r)
     = (validation r)\<lparr>hasMandatoryFiles :=
                         list_ex (\<lambda>f. path_exists w (path_join bp f)) mandatory_files\<rparr>"
  "errors (check_mandatory_files w bp r)
     = errors r @ (if list_ex (\<lambda>f. path_exists w (path_join bp f)) mandatory_files then []
                   else [''No valid entry point found (App.js, App.tsx, or app/_layout.tsx)''])"
  by (simp_all add: check_mandatory_files_def Let_def add_error_def)

lemma run_command_fails:
  assumes "command_fails w (process_cwd w) argv"
  shows "\<exists>c. run_command w argv None default_timeout = Inr c \<and> \<not> success c"
proof (cases "subprocess_run w argv (process_cwd w) default_timeout")
  case (Inr result)
  with assms show ?thesis
    by (simp add: run_command_def command_fails_def)
next
  case (Inl e)
  then show ?thesis
    by (cases e) (simp_all add: run_command_def)
qed

lemma run_expo_commands_fail:
  assumes enter: "chdir_error w (resolve (process_cwd w) bp) = None"
    and fail: "all_commands_fail w bp"
    and none: "commands r = []"
  shows "\<exists>r' w'. run_expo_commands w bp r = (r', w', None)
     \<and> chdir_error w' = chdir_error w
     \<and> errors r' = errors r
     \<and> warnings r' = warnings r @ [''Expo install check failed - dependencies may be incompatible'']
     \<and> map fst (commands r') = expo_command_names
     \<and> list_all (\<lambda>c. \<not> success (snd c)) (commands r')
     \<and> validation r' = (validation r)\<lparr>expoInstallCheck := False\<rparr>"
proof -
  define w1 where "w1 = w\<lparr>process_cwd := resolve (process_cwd w) bp\<rparr>"
  from enter have ch: "os_chdir w bp = Inr w1"
    by (simp add: os_chdir_def w1_def)
  have f: "command_fails w1 (process_cwd w1) argv" if "argv \<in> set expo_commands" for argv
    using fail that by (simp add: all_commands_fail_def list_all_iff command_fails_def w1_def)
  obtain c1 where c1: "run_command w1 [''npx'', ''expo'', ''--version''] None default_timeout = Inr c1"
      "\<not> success c1"
    using run_command_fails [OF f, of "[''npx'', ''expo'', ''--version'']"]
    by (auto simp: expo_commands_def)
  obtain c2 where c2: "run_command w1 [''npx'', ''expo'', ''config'', ''--type'', ''public'']
                         None default_timeout = Inr c2" "\<not> success c2"
    using run_command_fails [OF f, of "[''npx'', ''expo'', ''config'', ''--type'', ''public'']"]
    by (auto simp: expo_commands_def)
  obtain c3 where c3: "run_command w1 [''npx'', ''expo'', ''install'', ''--check'']
                         None default_timeout = Inr c3" "\<not> success c3"
    using run_command_fails [OF f, of "[''npx'', ''expo'', ''install'', ''--check'']"]
    by (auto simp: expo_commands_def)
  obtain c4 where c4: "run_command w1 [''npx'', ''expo-doctor''] None default_timeout = Inr c4"
      "\<not> success c4"
    using run_command_fails [OF f, of "[''npx'', ''expo-doctor'']"]
    by (auto simp: expo_commands_def)
  have "chdir_error w1 = chdir_error w"
    by (simp add: w1_def)
  with ch c1 c2 c3 c4 none show ?thesis
    by (simp add: run_expo_commands_def Let_def set_command_def add_warning_def dict_set_def
        expo_command_names_def)
qed

text \<open>
  Claim C4. Take a build directory that holds a well-formed \<open>package.json\<close>, an \<open>app.json\<close>
  whose two identifiers start with \<open>com.appfactory.\<close> and one of the entry-point files, in a
  process that can enter the directory and come back. When each of the four diagnostic
  commands fails there, \<open>validate_expo_build\<close> returns a report without errors: the four
  commands are recorded under their names with \<open>success\<close> false, and the only trace of
  their failure is the warning of the install check.
\<close>

theorem C4_command_failures_are_warnings:
  assumes "path_exists w build_path"
    and "path_exists w (path_join build_path ''package.json'')"
    and "read_json w (resolve (process_cwd w) (path_join build_path ''package.json'')) = Inr pkg"
    and "well_formed_package pkg"
    and "path_exists w (path_join build_path ''app.json'')"
    and "read_json w (resolve (process_cwd w) (path_join build_path ''app.json'')) = Inr app"
    and "compliant_app_json app"
    and "list_ex (\<lambda>f. path_exists w (path_join build_path f)) mandatory_files"
    and "chdir_error w (resolve (process_cwd w) build_path) = None"
    and "chdir_error w (process_cwd w) = None"
    and "all_commands_fail w build_path"
  shows "\<exists>r w'. validate_expo_build w build_path = (Inr r, w')
     \<and> errors r = []
     \<and> map fst (commands r) = expo_command_names
     \<and> list_all (\<lambda>c. \<not> success (snd c)) (commands r)
     \<and> warnings r = [''Expo install check failed - dependencies may be incompatible'']
     \<and> validation r = \<lparr>packageJsonExists = True, appJsonExists = True,
                         hasValidBundleIdentifier = True, hasValidAndroidPackage = True,
                         hasMandatoryFiles = True, expoInstallCheck = False\<rparr>"
proof -
  define w0 where "w0 = w\<lparr>ticks := Suc (ticks w)\<rparr>"
  obtain node where n: "get_node_version w0 = Inr node"
    using get_node_version_total by blast
  obtain npm where m: "get_npm_version w0 = Inr npm"
    using get_npm_version_total by blast
  define r0 where "r0 = initial_report (clock w (ticks w)) build_path node npm"
  define r1 where "r1 = check_package_json w0 build_path r0"
  define r2 where "r2 = check_app_json w0 build_path r1"
  define r3 where "r3 = check_mandatory_files w0 build_path r2"
  have ex: "path_exists w0 p = path_exists w p" for p
    by (simp add: w0_def)
  have rd: "read_json w0 = read_json w" "process_cwd w0 = process_cwd w"
      "chdir_error w0 = chdir_error w"
    by (simp_all add: w0_def)
  have "command_fails w0 = command_fails w"
    by (simp add: fun_eq_iff command_fails_def w0_def)
  with assms(11) have fail: "all_commands_fail w0 build_path"
    by (simp add: all_commands_fail_def rd)
  from assms(3,4) have "snd (parse_package_json w0 (path_join build_path ''package.json'') r) = None" for r
    by (intro parse_package_json_ok [where pkg = pkg]) (simp_all add: rd)
  with assms(2) have "e \<notin> set (errors r1)" for e
    unfolding r1_def check_package_json_frame(4) by (simp add: ex r0_def initial_report_def)
  then have e1: "errors r1 = []"
    by (cases "errors r1") auto
  from assms(2) have f1: "warnings r1 = []" "commands r1 = []"
      "validation r1 = \<lparr>packageJsonExists = True, appJsonExists = False,
                         hasValidBundleIdentifier = False, hasValidAndroidPackage = False,
                         hasMandatoryFiles = False, expoInstallCheck = False\<rparr>"
    by (simp_all add: r1_def check_package_json_frame ex r0_def initial_report_def)
  from assms(5,6,7)
  have "r2 = r1\<lparr>validation := (validation r1)\<lparr>appJsonExists := True,
                                                 hasValidBundleIdentifier := True,
                                                 hasValidAndroidPackage := True\<rparr>\<rparr>"
    unfolding r2_def by (intro check_app_json_compliant [where app = app]) (simp_all add: ex rd)
  with e1 f1 have f2: "errors r2 = []" "warnings r2 = []" "commands r2 = []"
      "validation r2 = \<lparr>packageJsonExists = True, appJsonExists = True,
                         hasValidBundleIdentifier = True, hasValidAndroidPackage = True,
                         hasMandatoryFiles = False, expoInstallCheck = False\<rparr>"
    by simp_all
  from assms(8) f2 have f3: "errors r3 = []" "warnings r3 = []" "commands r3 = []"
      "validation r3 = \<lparr>packageJsonExists = True, appJsonExists = True,
                         hasValidBundleIdentifier = True, hasValidAndroidPackage = True,
                         hasMandatoryFiles = True, expoInstallCheck = False\<rparr>"
    by (simp_all add: r3_def check_mandatory_files_frame ex)
  from assms(9) have enter: "chdir_error w0 (resolve (process_cwd w0) build_path) = None"
    by (simp add: rd)
  from run_expo_commands_fail [OF enter fail f3(3)]
  obtain r4 w1 where x: "run_expo_commands w0 build_path r3 = (r4, w1, None)"
      "chdir_error w1 = chdir_error w0" "errors r4 = errors r3"
      "warnings r4 = warnings r3 @ [''Expo install check failed - dependencies may be incompatible'']"
      "map fst (commands r4) = expo_command_names"
      "list_all (\<lambda>c. \<not> success (snd c)) (commands r4)"
      "validation r4 = (validation r3)\<lparr>expoInstallCheck := False\<rparr>"
    by blast
  from x(2) assms(10) have "\<exists>w2. os_chdir w1 (Path True (process_cwd w0)) = Inr w2"
    by (simp add: os_chdir_def rd)
  then obtain w2 where home: "os_chdir w1 (Path True (process_cwd w0)) = Inr w2" ..
  from assms(1) n m x(1) home
  have "validate_expo_build w build_path = (Inr r4, w2)"
    by (simp add: validate_expo_build_def datetime_now_def Let_def w0_def [symmetric] ex
        r0_def [symmetric] r1_def [symmetric] r2_def [symmetric] r3_def [symmetric])
  with x f3 show ?thesis
    by simp
qed

theorem C4_command_failures_are_warnings_witness:
  "path_exists (sample_val_world True ''com.appfactory.demo'' None) sample_build_path
   \<and> well_formed_package sample_package_json
   \<and> compliant_app_json (sample_app_json ''com.appfactory.demo'')
   \<and> all_commands_fail (sample_val_world True ''com.appfactory.demo'' None) sample_build_path
   \<and> (\<exists>r w'. validate_expo_build (sample_val_world True ''com.appfactory.demo'' None)
                 sample_build_path = (Inr r, w')
         \<and> errors r = []
         \<and> map fst (commands r) = expo_command_names
         \<and> list_all (\<lambda>c. \<not> success (snd c)) (commands r)
         \<and> warnings r = [''Expo install check failed - dependencies may be incompatible''])"
proof -
  let ?w = "sample_val_world True ''com.appfactory.demo'' None"
  have c: "process_cwd ?w = [''work'']"
    by (simp add: sample_val_world_def)
  have h1: "path_exists ?w sample_build_path"
    by (simp add: path_exists_def sample_val_world_def sample_build_def sample_build_path_def)
  have h2: "path_exists ?w (path_join sample_build_path ''package.json'')"
    by (simp add: path_exists_def sample_val_world_def sample_build_def sample_build_path_def
        py_startswith_def path_parts_def)
  have h3: "read_json ?w (resolve (process_cwd ?w) (path_join sample_build_path ''package.json''))
              = Inr sample_package_json"
    by (simp add: sample_val_world_def sample_build_path_def py_startswith_def path_parts_def)
  have h4: "well_formed_package sample_package_json"
    by (simp add: well_formed_package_def sample_package_json_def is_str_def)
  have h5: "path_exists ?w (path_join sample_build_path ''app.json'')"
    by (simp add: path_exists_def sample_val_world_def sample_build_def sample_build_path_def
        py_startswith_def path_parts_def)
  have h6: "read_json ?w (resolve (process_cwd ?w) (path_join sample_build_path ''app.json''))
              = Inr (sample_app_json ''com.appfactory.demo'')"
    by (simp add: sample_val_world_def sample_build_path_def py_startswith_def path_parts_def)
  have h7: "compliant_app_json (sample_app_json ''com.appfactory.demo'')"
    by (simp add: compliant_app_json_def compliant_identifier_def sample_app_json_def
        py_startswith_def)
  have h8: "list_ex (\<lambda>f. path_exists ?w (path_join sample_build_path f)) mandatory_files"
    by (simp add: path_exists_def sample_val_world_def sample_build_def sample_build_path_def
        py_startswith_def path_parts_def mandatory_files_def)
  have h9: "chdir_error ?w (resolve (process_cwd ?w) sample_build_path) = None"
    by (simp add: sample_val_world_def sample_build_path_def)
  have h10: "chdir_error ?w (process_cwd ?w) = None"
    by (simp add: sample_val_world_def)
  have h11: "all_commands_fail ?w sample_build_path"
    by (simp add: all_commands_fail_def command_fails_def expo_commands_def sample_val_world_def)
  from C4_command_failures_are_warnings [OF h1 h2 h3 h4 h5 h6 h7 h8 h9 h10 h11]
  have "\<exists>r w'. validate_expo_build ?w sample_build_path = (Inr r, w')
         \<and> errors r = []
         \<and> map fst (commands r) = expo_command_names
         \<and> list_all (\<lambda>c. \<not> success (snd c)) (commands r)
         \<and> warnings r = [''Expo install check failed - dependencies may be incompatible'']"
    by blast
  with h1 h4 h7 h11 show ?thesis by blast
qed

section \<open>validate_expo_build: the identifier flags\<close>







end
